theory Spec2Isabelle
  imports Main
begin

section \<open>TimeDistributedLayer: an inner layer applied to every timestep\<close>

text \<open>
  The development embeds \<^verbatim>\<open>tensorlayer/layers/time_distribution.py\<close>: the class
  \<^verbatim>\<open>TimeDistributedLayer\<close> with its methods \<^verbatim>\<open>__str__\<close> and \<^verbatim>\<open>__call__\<close>.
  The methods build a TensorFlow graph, so a tensor is a symbolic node that carries its
  static shape, and the part of the process-wide graph state the methods touch (the
  collection of variables and the current variable scope) is passed explicitly.
  Every Python exception is a value of the type \<open>error\<close>.
\<close>

subsection \<open>Python values and exceptions\<close>

text \<open>
  \<open>TFError\<close> stands for any exception raised inside a TensorFlow call (the framework
  raises \<^verbatim>\<open>ValueError\<close>, \<^verbatim>\<open>TypeError\<close> or \<^verbatim>\<open>IndexError\<close> depending on the
  operation and its version; the classes are not told apart). The other constructors are
  the exceptions that the Python statements of the file, or of a layer class, raise
  themselves.
\<close>

datatype error = AttributeError | KeyError | TypeError | IndexError | AssertionError | TFError

text \<open>An instance attribute is absent, holds \<^verbatim>\<open>None\<close>, or holds a value.\<close>

datatype 'a attr = Absent | PyNone | Val 'a

text \<open>
  The values of a configuration dictionary: strings, integers, and any other object,
  which is kept as the text that \<^verbatim>\<open>repr\<close> gives for it.
\<close>

datatype pyval = PyStr string | PyInt int | PyObj string

type_synonym kwargs = "(string \<times> pyval) list"

text \<open>\<^verbatim>\<open>str(i)\<close> for a non-negative integer.\<close>

definition digit_char :: "nat \<Rightarrow> char" where
  "digit_char d = ''0123456789'' ! d"

fun str_nat :: "nat \<Rightarrow> string" where
  "str_nat n = (if n < 10 then [digit_char n] else str_nat (n div 10) @ [digit_char (n mod 10)])"

declare str_nat.simps [simp del]

definition str_int :: "int \<Rightarrow> string" where
  "str_int k = (if k < 0 then CHR ''-'' # str_nat (nat (- k)) else str_nat (nat k))"

text \<open>
  \<^verbatim>\<open>repr\<close> of a string, whose characters are the code points below 256. The string is
  written between single quotes, or between double quotes when it holds a single quote and
  no double quote. The quote in use and the backslash are escaped with a backslash; tab,
  newline and carriage return are written \<^verbatim>\<open>\t\<close>, \<^verbatim>\<open>\n\<close>, \<^verbatim>\<open>\r\<close>; the other code points
  that are not printable (below 32, 127 to 160, and 173) are written \<^verbatim>\<open>\xhh\<close>.
\<close>

definition hex_digit :: "nat \<Rightarrow> char" where
  "hex_digit d = ''0123456789abcdef'' ! d"

definition repr_quote :: "string \<Rightarrow> char" where
  "repr_quote s = (if CHR 0x27 \<in> set s \<and> CHR 0x22 \<notin> set s then CHR 0x22 else CHR 0x27)"

definition repr_char :: "char \<Rightarrow> char \<Rightarrow> string" where
  "repr_char q c =
     (let n = (of_char c :: nat) in
      if c = q \<or> c = CHR 0x5C then [CHR 0x5C, c]
      else if c = CHR 0x09 then [CHR 0x5C, CHR ''t'']
      else if c = CHR 0x0A then [CHR 0x5C, CHR ''n'']
      else if c = CHR 0x0D then [CHR 0x5C, CHR ''r'']
      else if n < 32 \<or> (127 \<le> n \<and> n \<le> 160) \<or> n = 173
        then [CHR 0x5C, CHR ''x'', hex_digit (n div 16), hex_digit (n mod 16)]
      else [c])"

definition repr_str :: "string \<Rightarrow> string" where
  "repr_str s = [repr_quote s] @ concat (map (repr_char (repr_quote s)) s) @ [repr_quote s]"

text \<open>\<^verbatim>\<open>repr\<close> of a value and \<^verbatim>\<open>str\<close> of a dictionary.\<close>

fun repr :: "pyval \<Rightarrow> string" where
  "repr (PyStr s) = repr_str s"
| "repr (PyInt k) = str_int k"
| "repr (PyObj s) = s"

fun join :: "string \<Rightarrow> string list \<Rightarrow> string" where
  "join sep [] = []"
| "join sep [s] = s"
| "join sep (s # t # ss) = s @ sep @ join sep (t # ss)"

definition str_dict :: "kwargs \<Rightarrow> string" where
  "str_dict d = ''{'' @ join '', '' (map (\<lambda>(k, v). repr (PyStr k) @ '': '' @ repr v) d) @ ''}''"

subsection \<open>Tensors and their static shapes\<close>

text \<open>
  A dimension is known or unknown (\<^verbatim>\<open>None\<close>); the rank is always known. A tensor is the
  node of the graph that produces it, with the static shape computed when the node is
  created. Operation names are not modelled.
\<close>

type_synonym dim = "nat option"
type_synonym shape = "dim list"

datatype variable = Variable (var_name: string) (var_shape: shape)

datatype tensor =
    Placeholder string shape
  | UnstackOut tensor nat nat shape
  | StackOut "tensor list" nat shape
  | TransposeOut tensor "nat list" shape
  | LayerOut string "variable list" tensor shape

fun get_shape :: "tensor \<Rightarrow> shape" where
  "get_shape (Placeholder n s) = s"
| "get_shape (UnstackOut t axis i s) = s"
| "get_shape (StackOut ts axis s) = s"
| "get_shape (TransposeOut t perm s) = s"
| "get_shape (LayerOut c ws t s) = s"

text \<open>\<^verbatim>\<open>input_shape[1]\<close>: indexing a shape of known rank.\<close>

definition shape_getitem :: "shape \<Rightarrow> nat \<Rightarrow> error + dim" where
  "shape_getitem s i = (if i < length s then Inr (s ! i) else Inl IndexError)"

text \<open>\<^verbatim>\<open>range(0, timestep)\<close> over a dimension: an unknown dimension is no integer.\<close>

definition py_range :: "dim \<Rightarrow> error + nat list" where
  "py_range d = (case d of None \<Rightarrow> Inl TypeError | Some n \<Rightarrow> Inr [0..<n])"

text \<open>Two static shapes are merged when they have the same rank and agree where both are known.\<close>

fun merge_dim :: "dim \<Rightarrow> dim \<Rightarrow> dim option" where
  "merge_dim None d = Some d"
| "merge_dim (Some m) None = Some (Some m)"
| "merge_dim (Some m) (Some n) = (if m = n then Some (Some m) else None)"

fun merge_shape :: "shape \<Rightarrow> shape \<Rightarrow> shape option" where
  "merge_shape [] [] = Some []"
| "merge_shape (a # as) (b # bs) =
     (case merge_dim a b of
        None \<Rightarrow> None
      | Some d \<Rightarrow> (case merge_shape as bs of None \<Rightarrow> None | Some ds \<Rightarrow> Some (d # ds)))"
| "merge_shape _ _ = None"

fun merge_shapes :: "shape \<Rightarrow> shape list \<Rightarrow> shape option" where
  "merge_shapes s [] = Some s"
| "merge_shapes s (t # ts) =
     (case merge_shape s t of None \<Rightarrow> None | Some u \<Rightarrow> merge_shapes u ts)"

text \<open>
  \<^verbatim>\<open>tf.unstack(value, axis)\<close>: the axis must exist and its dimension must be known;
  the result has one tensor per index of that axis, each without the axis.
\<close>

definition tf_unstack :: "tensor \<Rightarrow> nat \<Rightarrow> error + tensor list" where
  "tf_unstack value axis =
     (let value_shape = get_shape value in
      if length value_shape \<le> axis then Inl TFError
      else case value_shape ! axis of
             None \<Rightarrow> Inl TFError
           | Some num \<Rightarrow>
               Inr (map (\<lambda>i. UnstackOut value axis i
                                (take axis value_shape @ drop (Suc axis) value_shape))
                        [0..<num]))"

text \<open>
  \<^verbatim>\<open>tf.stack(values, axis)\<close>: the shapes of the values are merged and the number of
  values is inserted at the axis. An empty list is converted to a constant of shape
  \<open>(0)\<close> on axis 0; on any other axis the framework reads \<^verbatim>\<open>values[0]\<close> and fails.
\<close>

definition tf_stack :: "tensor list \<Rightarrow> nat \<Rightarrow> error + tensor" where
  "tf_stack values axis =
     (case values of
        [] \<Rightarrow> if axis = 0 then Inr (StackOut [] 0 [Some 0]) else Inl TFError
      | v # vs \<Rightarrow>
          if length (get_shape v) < axis then Inl TFError
          else (case merge_shapes (get_shape v) (map get_shape vs) of
                  None \<Rightarrow> Inl TFError
                | Some s \<Rightarrow>
                    Inr (StackOut values axis
                           (take axis s @ [Some (length values)] @ drop axis s))))"

text \<open>\<^verbatim>\<open>tf.transpose(a, perm)\<close>: \<open>perm\<close> must be a permutation of the axes.\<close>

definition tf_transpose :: "tensor \<Rightarrow> nat list \<Rightarrow> error + tensor" where
  "tf_transpose a perm =
     (let s = get_shape a in
      if length perm = length s \<and> distinct perm \<and> list_all (\<lambda>i. i < length s) perm
      then Inr (TransposeOut a perm (map (\<lambda>i. s ! i) perm))
      else Inl TFError)"

subsection \<open>Variable scopes and the collection of variables\<close>

text \<open>
  The reuse flag of a scope is \<^verbatim>\<open>None\<close>/\<^verbatim>\<open>False\<close>, \<^verbatim>\<open>True\<close> or \<^verbatim>\<open>tf.AUTO_REUSE\<close>.
  The graph state holds the variables in the order of their creation (the collection
  \<^verbatim>\<open>TF_GRAPHKEYS_VARIABLES\<close>) and the current variable scope.
\<close>

datatype reuse_flag = NoReuse | Reuse | AutoReuse

record var_scope =
  vs_name :: string
  vs_reuse :: reuse_flag

record graph =
  variables :: "variable list"
  cur_scope :: var_scope

definition scope_join :: "string \<Rightarrow> string \<Rightarrow> string" where
  "scope_join p n = (if p = [] then n else p @ ''/'' @ n)"

text \<open>
  Opening \<^verbatim>\<open>tf.variable_scope(name, reuse=r)\<close> inside the scope \<open>old\<close>: the name is
  appended, and the flag is \<^verbatim>\<open>r or old.reuse\<close>.
\<close>

definition enter_scope :: "string \<Rightarrow> reuse_flag \<Rightarrow> var_scope \<Rightarrow> var_scope" where
  "enter_scope nm r old =
     \<lparr>vs_name = scope_join (vs_name old) nm,
      vs_reuse = (if r = NoReuse then vs_reuse old else r)\<rparr>"

text \<open>
  \<^verbatim>\<open>with tf.variable_scope(name, reuse=r) as vs: body\<close>. The body runs in the new scope;
  the previous scope is restored when the block is left.
\<close>

definition variable_scope ::
  "string \<Rightarrow> reuse_flag \<Rightarrow> (var_scope \<Rightarrow> graph \<Rightarrow> error + (graph \<times> 'a)) \<Rightarrow> graph \<Rightarrow> error + (graph \<times> 'a)" where
  "variable_scope nm r body g =
     (let old = cur_scope g; vs = enter_scope nm r old in
      case body vs (g\<lparr>cur_scope := vs\<rparr>) of
        Inl e \<Rightarrow> Inl e
      | Inr (g', res) \<Rightarrow> Inr (g'\<lparr>cur_scope := old\<rparr>, res))"

definition shape_compatible :: "shape \<Rightarrow> shape \<Rightarrow> bool" where
  "shape_compatible a b = (merge_shape a b \<noteq> None)"

text \<open>
  \<^verbatim>\<open>tf.get_variable(name, shape)\<close> in the current scope. A variable of that full name
  that exists is returned unless the scope does not reuse; a variable that does not exist
  is created unless the scope reuses.
\<close>

definition get_variable :: "string \<Rightarrow> shape \<Rightarrow> graph \<Rightarrow> error + (graph \<times> variable)" where
  "get_variable nm shp g =
     (let sc = cur_scope g; full = scope_join (vs_name sc) nm in
      case find (\<lambda>v. var_name v = full) (variables g) of
        Some v \<Rightarrow>
          if vs_reuse sc = NoReuse then Inl TFError
          else if shape_compatible shp (var_shape v) then Inr (g, v)
          else Inl TFError
      | None \<Rightarrow>
          if vs_reuse sc = Reuse then Inl TFError
          else Inr (g\<lparr>variables := variables g @ [Variable full shp]\<rparr>, Variable full shp))"

text \<open>
  \<^verbatim>\<open>tf.get_collection(TF_GRAPHKEYS_VARIABLES, scope=s)\<close>: the variables, in the order of
  their creation, for which \<^verbatim>\<open>re.match(s, item.name)\<close> succeeds, where the name of the
  item is the name of the variable followed by \<^verbatim>\<open>:0\<close>. The framework refuses a scope
  name with a character other than letters, digits and \<^verbatim>\<open>_ . - /\<close> when the scope is
  opened, so the dot is the only character of the pattern \<open>s\<close> that does not stand for
  itself: it matches any character but a newline. The pattern has to match at the start
  of the name, not all of it.
\<close>

definition item_name :: "variable \<Rightarrow> string" where
  "item_name v = var_name v @ '':0''"

fun re_match :: "string \<Rightarrow> string \<Rightarrow> bool" where
  "re_match [] cs = True"
| "re_match (p # ps) [] = False"
| "re_match (p # ps) (c # cs) =
     ((p = c \<or> (p = CHR ''.'' \<and> c \<noteq> CHR 0x0A)) \<and> re_match ps cs)"

definition get_collection :: "graph \<Rightarrow> string \<Rightarrow> variable list" where
  "get_collection g s = filter (\<lambda>v. re_match s (item_name v)) (variables g)"

subsection \<open>Layer classes\<close>

text \<open>
  Modelled from the spec: \<^verbatim>\<open>InputLayer\<close> of \<^verbatim>\<open>tensorlayer/layers/inputs.py\<close> is not in
  the source. The spec describes it as an input adapter that wraps a raw tensor slice
  into the layer interface: a name and the tensor as its outputs.
\<close>

record in_layer =
  il_name :: string
  il_outputs :: tensor

definition InputLayer :: "tensor \<Rightarrow> string \<Rightarrow> in_layer" where
  "InputLayer t nm = \<lparr>il_name = nm, il_outputs = t\<rparr>"

text \<open>
  The \<^verbatim>\<open>layer_class\<close> argument is supplied by the caller: a class with a
  \<^verbatim>\<open>__name__\<close> whose constructor takes the previous layer and keyword arguments,
  works on the graph, and yields a layer with its \<^verbatim>\<open>outputs\<close>.
\<close>

record layer_class =
  cls_name :: string
  cls_call :: "in_layer \<Rightarrow> kwargs \<Rightarrow> graph \<Rightarrow> error + (graph \<times> tensor)"

text \<open>
  The layer classes of the library (\<^verbatim>\<open>DenseLayer\<close> in the docstring's example) open a
  variable scope of their own name and obtain every parameter from
  \<^verbatim>\<open>tf.get_variable\<close>. Such a class is described by a function that gives, for the
  keyword arguments and the shape of the input, the local names and shapes of its
  parameters and the shape of its output, or fails.
\<close>

type_synonym layer_spec = "kwargs \<Rightarrow> shape \<Rightarrow> error + ((string \<times> shape) list \<times> shape)"

fun get_variables :: "(string \<times> shape) list \<Rightarrow> graph \<Rightarrow> error + (graph \<times> variable list)" where
  "get_variables [] g = Inr (g, [])"
| "get_variables ((n, s) # ps) g =
     (case get_variable n s g of
        Inl e \<Rightarrow> Inl e
      | Inr (g1, v) \<Rightarrow>
          (case get_variables ps g1 of
             Inl e \<Rightarrow> Inl e
           | Inr (g2, vs) \<Rightarrow> Inr (g2, v # vs)))"

definition tl_layer :: "string \<Rightarrow> layer_spec \<Rightarrow> layer_class" where
  "tl_layer cn spec =
     \<lparr>cls_name = cn,
      cls_call = (\<lambda>prev kw g.
        case map_of kw ''name'' of
          Some (PyStr nm) \<Rightarrow>
            variable_scope nm NoReuse
              (\<lambda>vs g1.
                 case spec kw (get_shape (il_outputs prev)) of
                   Inl e \<Rightarrow> Inl e
                 | Inr (params, out_shape) \<Rightarrow>
                     (case get_variables params g1 of
                        Inl e \<Rightarrow> Inl e
                      | Inr (g2, ws) \<Rightarrow> Inr (g2, LayerOut cn ws (il_outputs prev) out_shape)))
              g
        | _ \<Rightarrow> Inl TypeError)\<rparr>"

text \<open>
  The class of the docstring's example. \<^verbatim>\<open>DenseLayer\<close> asserts that its input has rank 2
  and reads the last dimension as an integer; with \<^verbatim>\<open>n_units\<close> units (100 when the
  argument is not given) on an input of shape \<open>(batch, n_in)\<close> it has the parameters \<open>W\<close> of
  shape \<open>(n_in, n_units)\<close> and \<open>b\<close> of shape \<open>(n_units)\<close>, and an output of shape
  \<open>(batch, n_units)\<close>; the framework refuses a number of units that is negative or no
  integer when \<open>W\<close> is asked for.
\<close>

definition dense_shapes :: "dim \<Rightarrow> nat \<Rightarrow> nat \<Rightarrow> (string \<times> shape) list \<times> shape" where
  "dense_shapes b n_in n_units =
     ([(''W'', [Some n_in, Some n_units]), (''b'', [Some n_units])], [b, Some n_units])"

definition dense_spec :: layer_spec where
  "dense_spec kw s =
     (case s of
        [b, d] \<Rightarrow>
          (case d of
             None \<Rightarrow> Inl TypeError
           | Some n_in \<Rightarrow>
               (case map_of kw ''n_units'' of
                  None \<Rightarrow> Inr (dense_shapes b n_in 100)
                | Some (PyInt n) \<Rightarrow>
                    if n < 0 then Inl TFError else Inr (dense_shapes b n_in (nat n))
                | Some _ \<Rightarrow> Inl TFError))
      | _ \<Rightarrow> Inl AssertionError)"

definition DenseLayer :: layer_class where
  "DenseLayer = tl_layer ''DenseLayer'' dense_spec"

subsection \<open>The instance of TimeDistributedLayer\<close>

text \<open>
  What \<^verbatim>\<open>self.inputs\<close> holds: nothing yet, a tensor, or a sequence of tensors.
\<close>

datatype layer_value = NoValue | TensorV tensor | SeqV "tensor list"

text \<open>
  The previous layer, as far as the call reads it: its outputs and the running lists of
  layer outputs and parameters of the network so far.
\<close>

record prev_layer =
  pl_outputs :: layer_value
  pl_all_layers :: "tensor list"
  pl_all_params :: "variable list"

text \<open>
  The attributes of an instance. \<^verbatim>\<open>__init__\<close> assigns \<open>layer_class\<close> and \<open>name\<close>
  (line 69, 70) and hands \<open>layer_args\<close> to the constructor of the base class;
  \<open>_local_weights\<close> is assigned by \<^verbatim>\<open>__call__\<close> (line 115) and is absent (\<open>None\<close>
  here) on an instance where nothing has assigned it.
\<close>

record td_layer =
  layer_class :: "layer_class attr"
  layer_args :: "kwargs attr"
  name :: string
  inputs :: layer_value
  outputs :: "tensor option"
  local_weights :: "variable list option"
  all_layers :: "tensor list"
  all_params :: "variable list"

subsection \<open>The description of an instance: \<^verbatim>\<open>__str__\<close>\<close>

text \<open>
  The two attribute reads of \<^verbatim>\<open>__str__\<close>, each of which may raise. Reading
  \<^verbatim>\<open>__name__\<close> of an absent attribute or of \<^verbatim>\<open>None\<close> raises \<^verbatim>\<open>AttributeError\<close>.
\<close>

definition layer_class_fragment :: "td_layer \<Rightarrow> error + string" where
  "layer_class_fragment self =
     (case layer_class self of
        Val c \<Rightarrow> Inr (''layer_class: '' @ cls_name c)
      | _ \<Rightarrow> Inl AttributeError)"

definition layer_args_fragment :: "td_layer \<Rightarrow> error + string" where
  "layer_args_fragment self =
     (case layer_args self of
        Absent \<Rightarrow> Inl AttributeError
      | PyNone \<Rightarrow> Inr (''layer_args: '' @ ''None'')
      | Val kw \<Rightarrow> Inr (''layer_args: '' @ str_dict kw))"

text \<open>
  \<^verbatim>\<open>try: additional_str.append(...) except AttributeError: pass\<close>: an
  \<^verbatim>\<open>AttributeError\<close> leaves the list as it is, any other exception goes on.
\<close>

definition try_append :: "string list \<Rightarrow> error + string \<Rightarrow> error + string list" where
  "try_append additional_str r =
     (case r of
        Inr s \<Rightarrow> Inr (additional_str @ [s])
      | Inl AttributeError \<Rightarrow> Inr additional_str
      | Inl e \<Rightarrow> Inl e)"

text \<open>Lines 75 to 85: the list of fragments after the two guarded reads.\<close>

definition additional_str :: "td_layer \<Rightarrow> error + string list" where
  "additional_str self =
     (case try_append [] (layer_class_fragment self) of
        Inl e \<Rightarrow> Inl e
      | Inr additional_str1 \<Rightarrow> try_append additional_str1 (layer_args_fragment self))"

text \<open>
  \<^verbatim>\<open>__str__\<close> (lines 74 to 87). The method \<^verbatim>\<open>_str\<close> of the base class is not in the
  source: it is the parameter \<open>base_str\<close>, which reads the instance and the list of
  fragments. The result is paired with the instance after the call; no statement of the
  method assigns to an attribute.
\<close>

definition str_td ::
  "(td_layer \<Rightarrow> string list \<Rightarrow> error + string) \<Rightarrow> td_layer \<Rightarrow> (error + string) \<times> td_layer" where
  "str_td base_str self =
     (case additional_str self of
        Inl e \<Rightarrow> (Inl e, self)
      | Inr fragments \<Rightarrow> (base_str self fragments, self))"

subsection \<open>Building the layer: \<^verbatim>\<open>__call__\<close>\<close>

text \<open>
  Modelled from the spec: \<^verbatim>\<open>Layer.__call__\<close>, \<^verbatim>\<open>Layer._add_layers\<close> and
  \<^verbatim>\<open>Layer._add_params\<close> of \<^verbatim>\<open>tensorlayer/layers/core.py\<close> are not in the source. The
  spec describes the base layer as providing the \<open>inputs\<close> and \<open>outputs\<close> fields and hooks
  that register derived outputs and parameters with the running lists of layers and
  parameters: the call takes the inputs and the running lists from the previous layer,
  and the hooks append to the lists.
\<close>

definition base_call :: "td_layer \<Rightarrow> prev_layer \<Rightarrow> td_layer" where
  "base_call self prev =
     self\<lparr>inputs := pl_outputs prev,
          all_layers := pl_all_layers prev,
          all_params := pl_all_params prev\<rparr>"

definition add_layers :: "td_layer \<Rightarrow> tensor \<Rightarrow> td_layer" where
  "add_layers self t = self\<lparr>all_layers := all_layers self @ [t]\<rparr>"

definition add_params :: "td_layer \<Rightarrow> variable list \<Rightarrow> td_layer" where
  "add_params self ws = self\<lparr>all_params := all_params self @ ws\<rparr>"

text \<open>
  Lines 94 and 95: inputs that are no tensor are stacked and transposed with the
  permutation \<open>[1, 0, 2]\<close>.
\<close>

definition normalize_inputs :: "layer_value \<Rightarrow> error + tensor" where
  "normalize_inputs v =
     (case v of
        TensorV t \<Rightarrow> Inr t
      | SeqV ts \<Rightarrow>
          (case tf_stack ts 0 of
             Inl e \<Rightarrow> Inl e
           | Inr s \<Rightarrow> tf_transpose s [1, 0, 2])
      | NoValue \<Rightarrow> Inl TFError)"

text \<open>
  One pass through the body of the loop (lines 107 to 115), for the index \<open>i\<close>. The
  state of the loop is the graph, the list \<open>x\<close> and the attribute \<open>_local_weights\<close>.
\<close>

type_synonym loop_state = "graph \<times> tensor list \<times> variable list option"

text \<open>Line 107: the flag of the first pass is the one of the enclosing scope.\<close>

definition timestep_reuse :: "reuse_flag \<Rightarrow> nat \<Rightarrow> reuse_flag" where
  "timestep_reuse is_name_reuse i = (if i = 0 then is_name_reuse else Reuse)"

definition timestep_body :: "td_layer \<Rightarrow> reuse_flag \<Rightarrow> nat \<Rightarrow> loop_state \<Rightarrow> error + loop_state" where
  "timestep_body self is_name_reuse i st =
     (case st of (g, x, lw) \<Rightarrow>
        (let reuse = timestep_reuse is_name_reuse i in
         variable_scope (name self) reuse
           (\<lambda>vs g1.
              if \<not> i < length x then Inl IndexError
              else (case layer_args self of
                      Absent \<Rightarrow> Inl AttributeError
                    | PyNone \<Rightarrow> Inl TypeError
                    | Val kw \<Rightarrow>
                        (case map_of kw ''name'' of
                           None \<Rightarrow> Inl KeyError
                         | Some (PyStr nm) \<Rightarrow>
                             (let in_layer = InputLayer (x ! i) (nm @ str_nat i) in
                              (case layer_class self of
                                 Absent \<Rightarrow> Inl AttributeError
                               | PyNone \<Rightarrow> Inl TypeError
                               | Val c \<Rightarrow>
                                   (case cls_call c in_layer kw g1 of
                                      Inl e \<Rightarrow> Inl e
                                    | Inr (g2, net_outputs) \<Rightarrow>
                                        Inr (g2, x[i := net_outputs],
                                             Some (get_collection g2 (vs_name vs))))))
                         | Some _ \<Rightarrow> Inl TypeError)))
           g))"

text \<open>The loop of line 105 over the indices of \<^verbatim>\<open>range(0, timestep)\<close>.\<close>

fun timestep_loop :: "td_layer \<Rightarrow> reuse_flag \<Rightarrow> nat list \<Rightarrow> loop_state \<Rightarrow> error + loop_state" where
  "timestep_loop self is_name_reuse [] st = Inr st"
| "timestep_loop self is_name_reuse (i # is) st =
     (case timestep_body self is_name_reuse i st of
        Inl e \<Rightarrow> Inl e
      | Inr st' \<Rightarrow> timestep_loop self is_name_reuse is st')"

text \<open>
  Lines 117 to 120: the outputs are stacked on axis 1 and registered, then the
  attribute \<open>_local_weights\<close> is read and registered.
\<close>

definition finish_call :: "td_layer \<Rightarrow> loop_state \<Rightarrow> error + (graph \<times> td_layer)" where
  "finish_call self st =
     (case st of (g, x, lw) \<Rightarrow>
        (case tf_stack x 1 of
           Inl e \<Rightarrow> Inl e
         | Inr out \<Rightarrow>
             (let self1 = add_layers (self\<lparr>outputs := Some out, local_weights := lw\<rparr>) out in
              (case local_weights self1 of
                 None \<Rightarrow> Inl AttributeError
               | Some ws \<Rightarrow> Inr (g, add_params self1 ws)))))"

text \<open>
  \<^verbatim>\<open>__call__\<close> (lines 90 to 120). The decorator \<^verbatim>\<open>force_return_self\<close> makes the call
  return the instance; the argument \<^verbatim>\<open>is_train\<close> is not used by the body.
\<close>

definition call :: "td_layer \<Rightarrow> prev_layer \<Rightarrow> graph \<Rightarrow> error + (graph \<times> td_layer)" where
  "call self0 prev g =
     (let self1 = base_call self0 prev in
      case normalize_inputs (inputs self1) of
        Inl e \<Rightarrow> Inl e
      | Inr t \<Rightarrow>
          let self2 = self1\<lparr>inputs := TensorV t\<rparr>;
              input_shape = get_shape t in
          (case shape_getitem input_shape 1 of
             Inl e \<Rightarrow> Inl e
           | Inr timestep \<Rightarrow>
               (case tf_unstack t 1 of
                  Inl e \<Rightarrow> Inl e
                | Inr x \<Rightarrow>
                    let is_name_reuse = vs_reuse (cur_scope g) in
                    (case py_range timestep of
                       Inl e \<Rightarrow> Inl e
                     | Inr idx \<Rightarrow>
                         (case timestep_loop self2 is_name_reuse idx (g, x, local_weights self2) of
                            Inl e \<Rightarrow> Inl e
                          | Inr st \<Rightarrow> finish_call self2 st)))))"

subsection \<open>Notions used in the statements\<close>

text \<open>
  The scope in which a class of the library asks for its parameters during a pass of the
  loop: the scope of its own name \<open>nm\<close> inside the scope of the layer's name.
\<close>

definition inner_scope :: "td_layer \<Rightarrow> string \<Rightarrow> reuse_flag \<Rightarrow> var_scope \<Rightarrow> var_scope" where
  "inner_scope self nm r amb = enter_scope nm NoReuse (enter_scope (name self) r amb)"

text \<open>The name of the scope that the loop opens, seen from the enclosing scope.\<close>

definition layer_scope_name :: "td_layer \<Rightarrow> graph \<Rightarrow> string" where
  "layer_scope_name self g = scope_join (vs_name (cur_scope g)) (name self)"

text \<open>
  The spec compares the layer with ``directly invoking the inner layer once on the sole
  timestep slice, modulo naming''. The direct invocation is a single call of the class on
  one input layer; so that the names of its parameters can be compared, it is made inside
  a scope of the given name, with the flag of the enclosing scope.
\<close>

definition direct_invoke ::
  "layer_class \<Rightarrow> in_layer \<Rightarrow> kwargs \<Rightarrow> string \<Rightarrow> graph \<Rightarrow> error + (graph \<times> tensor)" where
  "direct_invoke c prev kw scope g =
     variable_scope scope (vs_reuse (cur_scope g)) (\<lambda>vs. cls_call c prev kw) g"

text \<open>
  The example of the docstring: a placeholder of shape \<open>(32, T, 100)\<close> (\<open>T = 20\<close> there)
  behind an input layer, and
  \<^verbatim>\<open>TimeDistributedLayer(net, layer_class=DenseLayer, args={'n_units': 50, 'name': 'dense'}, name='time_dense')\<close>
  in a fresh graph.
\<close>

definition encode_seqs :: "nat \<Rightarrow> tensor" where
  "encode_seqs T = Placeholder ''encode_seqs'' [Some 32, Some T, Some 100]"

definition input_net :: "nat \<Rightarrow> prev_layer" where
  "input_net T = \<lparr>pl_outputs = TensorV (encode_seqs T), pl_all_layers = [encode_seqs T], pl_all_params = []\<rparr>"

definition dense_args :: kwargs where
  "dense_args = [(''n_units'', PyInt 50), (''name'', PyStr ''dense'')]"

definition time_dense :: td_layer where
  "time_dense =
     \<lparr>layer_class = Val DenseLayer, layer_args = Val dense_args, name = ''time_dense'',
      inputs = NoValue, outputs = None, local_weights = None, all_layers = [], all_params = []\<rparr>"

text \<open>The slice of index \<open>i\<close> of the example's placeholder.\<close>

definition slice :: "nat \<Rightarrow> nat \<Rightarrow> tensor" where
  "slice T i = UnstackOut (encode_seqs T) 1 i [Some 32, Some 100]"


text \<open>
  A layer class that does not go through \<^verbatim>\<open>tf.get_variable\<close>: its constructor makes
  its parameter, a scalar, with \<^verbatim>\<open>tf.Variable\<close>, which creates a new variable on every
  call, whatever the reuse flag of the scope is, under a name that is not in use (here the
  number of the variables of the graph is part of the name). The output has the shape of
  the input.
\<close>

definition VariableLayer :: layer_class where
  "VariableLayer =
     \<lparr>cls_name = ''VariableLayer'',
      cls_call = (\<lambda>prev kw g.
        let v = Variable (scope_join (vs_name (cur_scope g))
                            (''v_'' @ str_nat (length (variables g)))) []
        in Inr (g\<lparr>variables := variables g @ [v]\<rparr>,
                LayerOut ''VariableLayer'' [v] (il_outputs prev) (get_shape (il_outputs prev))))\<rparr>"

definition time_variable :: td_layer where
  "time_variable = time_dense\<lparr>layer_class := Val VariableLayer\<rparr>"

text \<open>What that class leaves behind in the example: its variables, outputs and graphs.\<close>

definition variable_param :: "nat \<Rightarrow> variable" where
  "variable_param k = Variable (''time_dense/v_'' @ str_nat k) []"

definition variable_out :: "nat \<Rightarrow> nat \<Rightarrow> tensor" where
  "variable_out T k = LayerOut ''VariableLayer'' [variable_param k] (slice T k) [Some 32, Some 100]"

definition root_scope :: var_scope where
  "root_scope = \<lparr>vs_name = [], vs_reuse = NoReuse\<rparr>"

definition fresh_graph :: graph where
  "fresh_graph = \<lparr>variables = [], cur_scope = root_scope\<rparr>"

definition dense_params :: "variable list" where
  "dense_params =
     [Variable ''time_dense/dense/W'' [Some 100, Some 50],
      Variable ''time_dense/dense/b'' [Some 50]]"

definition dense_out :: "nat \<Rightarrow> nat \<Rightarrow> tensor" where
  "dense_out T k = LayerOut ''DenseLayer'' dense_params (slice T k) [Some 32, Some 50]"

definition built_graph :: graph where
  "built_graph = \<lparr>variables = dense_params, cur_scope = root_scope\<rparr>"

text \<open>
  A graph in which another layer, of the name \<open>time_dense2\<close>, has a variable already,
  and the same graph after the example's layer is built in it.
\<close>

definition other_variable :: variable where
  "other_variable = Variable ''time_dense2/v'' [Some 7]"


definition variable_graph :: "nat \<Rightarrow> graph" where
  "variable_graph n = \<lparr>variables = map variable_param [0..<n], cur_scope = root_scope\<rparr>"

definition crowded_built_graph :: graph where
  "crowded_built_graph = \<lparr>variables = other_variable # dense_params, cur_scope = root_scope\<rparr>"

section \<open>Properties\<close>

subsection \<open>Auxiliary facts\<close>

text \<open>
  Facts about merging shapes, about the lookup and creation of variables in a scope, and
  about the passes of the loop, which the properties of the layer are derived from.
\<close>

lemma merge_dim_same: "merge_dim d d = Some d"
  by (cases d) simp_all

lemma merge_shape_same: "merge_shape s s = Some s"
  by (induction s) (simp_all add: merge_dim_same)

lemma merge_shapes_same: "\<forall>t\<in>set ts. t = s \<Longrightarrow> merge_shapes s ts = Some s"
  by (induction ts) (simp_all add: merge_shape_same)

lemma find_append_Some: "find P xs = Some v \<Longrightarrow> find P (xs @ ys) = Some v"
  by (induction xs) (auto split: if_splits)

lemma find_append_None: "find P xs = None \<Longrightarrow> find P (xs @ ys) = find P ys"
  by (induction xs) (auto split: if_splits)

lemma get_variable_scope: "get_variable n s g = Inr (g', v) \<Longrightarrow> cur_scope g' = cur_scope g"
  by (auto simp: get_variable_def Let_def split: option.splits if_splits)

lemma get_variable_extends:
  "get_variable n s g = Inr (g', v) \<Longrightarrow> \<exists>ys. variables g' = variables g @ ys"
  by (auto simp: get_variable_def Let_def split: option.splits if_splits)

lemma get_variable_reuse_same:
  "get_variable n s g = Inr (g', v) \<Longrightarrow> vs_reuse (cur_scope g) = Reuse \<Longrightarrow> g' = g"
  by (auto simp: get_variable_def Let_def split: option.splits if_splits)

lemma get_variable_again:
  assumes "get_variable n s g = Inr (g', v)"
    and "variables h = variables g' @ zs"
    and "vs_name (cur_scope h) = vs_name (cur_scope g)"
    and "vs_reuse (cur_scope h) = Reuse"
  shows "get_variable n s h = Inr (h, v)"
  using assms
  by (auto simp: get_variable_def Let_def shape_compatible_def merge_shape_same
        find_append_Some find_append_None split: option.splits if_splits)

lemma get_variables_scope:
  "get_variables ps g = Inr (g', ws) \<Longrightarrow> cur_scope g' = cur_scope g"
proof (induction ps arbitrary: g g' ws)
  case Nil
  then show ?case by simp
next
  case (Cons p ps)
  obtain n s where p: "p = (n, s)" by (cases p)
  from Cons.prems p obtain g1 v vs where
    a: "get_variable n s g = Inr (g1, v)" and b: "get_variables ps g1 = Inr (g', vs)"
    by (auto split: sum.splits)
  from Cons.IH [OF b] get_variable_scope [OF a] show ?case by simp
qed

lemma get_variables_extends:
  "get_variables ps g = Inr (g', ws) \<Longrightarrow> \<exists>ys. variables g' = variables g @ ys"
proof (induction ps arbitrary: g g' ws)
  case Nil
  then show ?case by simp
next
  case (Cons p ps)
  obtain n s where p: "p = (n, s)" by (cases p)
  from Cons.prems p obtain g1 v vs where
    a: "get_variable n s g = Inr (g1, v)" and b: "get_variables ps g1 = Inr (g', vs)"
    by (auto split: sum.splits)
  from Cons.IH [OF b] get_variable_extends [OF a] show ?case by auto
qed

lemma get_variables_reuse_same:
  "get_variables ps g = Inr (g', ws) \<Longrightarrow> vs_reuse (cur_scope g) = Reuse \<Longrightarrow> g' = g"
proof (induction ps arbitrary: g g' ws)
  case Nil
  then show ?case by simp
next
  case (Cons p ps)
  obtain n s where p: "p = (n, s)" by (cases p)
  from Cons.prems p obtain g1 v vs where
    a: "get_variable n s g = Inr (g1, v)" and b: "get_variables ps g1 = Inr (g', vs)"
    by (auto split: sum.splits)
  from get_variable_reuse_same [OF a] Cons.prems(2) have "g1 = g" by simp
  with Cons.IH [OF b] Cons.prems(2) show ?case by simp
qed

lemma get_variables_again:
  assumes "get_variables ps g = Inr (g', ws)"
    and "variables h = variables g' @ zs"
    and "vs_name (cur_scope h) = vs_name (cur_scope g)"
    and "vs_reuse (cur_scope h) = Reuse"
  shows "get_variables ps h = Inr (h, ws)"
  using assms
proof (induction ps arbitrary: g ws)
  case Nil
  then show ?case by simp
next
  case (Cons p ps)
  obtain n s where p: "p = (n, s)" by (cases p)
  from Cons.prems(1) p obtain g1 v vs where
    a: "get_variable n s g = Inr (g1, v)" and b: "get_variables ps g1 = Inr (g', vs)"
    and ws: "ws = v # vs"
    by (auto split: sum.splits)
  from get_variables_extends [OF b] obtain ys where "variables g' = variables g1 @ ys" ..
  with Cons.prems(2) have ext: "variables h = variables g1 @ (ys @ zs)" by simp
  have first: "get_variable n s h = Inr (h, v)"
    by (rule get_variable_again [OF a ext Cons.prems(3) Cons.prems(4)])
  have "vs_name (cur_scope h) = vs_name (cur_scope g1)"
    using Cons.prems(3) get_variable_scope [OF a] by simp
  from Cons.IH [OF b Cons.prems(2) this Cons.prems(4)]
  have "get_variables ps h = Inr (h, vs)" .
  with first p ws show ?case by simp
qed


lemma get_collection_cur_scope [simp]:
  "get_collection (g\<lparr>cur_scope := sc\<rparr>) s = get_collection g s"
  by (simp add: get_collection_def)

lemma timestep_body_tl:
  assumes "layer_class self = Val (tl_layer cn spec)"
    and "layer_args self = Val kw"
    and "map_of kw ''name'' = Some (PyStr nm)"
    and "i < length x"
    and "spec kw (get_shape (x ! i)) = Inr (params, osh)"
  shows "timestep_body self r0 i (g, x, lw) =
     (case get_variables params
             (g\<lparr>cur_scope := inner_scope self nm (timestep_reuse r0 i) (cur_scope g)\<rparr>) of
        Inl e \<Rightarrow> Inl e
      | Inr (g2, ws) \<Rightarrow>
          Inr (g2\<lparr>cur_scope := cur_scope g\<rparr>, x[i := LayerOut cn ws (x ! i) osh],
               Some (get_collection g2 (scope_join (vs_name (cur_scope g)) (name self)))))"
  using assms
  by (simp add: timestep_body_def variable_scope_def tl_layer_def InputLayer_def Let_def
        inner_scope_def enter_scope_def timestep_reuse_def split: sum.splits prod.splits)

lemma timestep_body_Inr_tl:
  assumes "layer_class self = Val (tl_layer cn spec)"
    and "timestep_body self r0 i (g, x, lw) = Inr st'"
  shows "\<exists>kw nm params osh. layer_args self = Val kw \<and> map_of kw ''name'' = Some (PyStr nm)
           \<and> i < length x \<and> spec kw (get_shape (x ! i)) = Inr (params, osh)"
  using assms
  by (auto simp: timestep_body_def variable_scope_def tl_layer_def InputLayer_def Let_def
        split: sum.splits prod.splits attr.splits option.splits pyval.splits if_splits)


lemma inner_scope_name [simp]:
  "vs_name (inner_scope self nm r amb) = scope_join (scope_join (vs_name amb) (name self)) nm"
  by (simp add: inner_scope_def enter_scope_def)

lemma inner_scope_Reuse [simp]: "vs_reuse (inner_scope self nm Reuse amb) = Reuse"
  by (simp add: inner_scope_def enter_scope_def)

lemma inner_scope_ambient [simp]:
  "vs_reuse (inner_scope self nm (vs_reuse amb) amb) = vs_reuse amb"
  by (simp add: inner_scope_def enter_scope_def)

lemma graph_restore [simp]: "cur_scope g = amb \<Longrightarrow> g\<lparr>cur_scope := sc\<rparr>\<lparr>cur_scope := amb\<rparr> = g"
  by (cases g) simp

lemma later_timestep:
  assumes cls: "layer_class self = Val (tl_layer cn spec)"
    and args: "layer_args self = Val kw" "map_of kw ''name'' = Some (PyStr nm)"
    and i: "0 < i" "i < length x"
    and sp: "spec kw (get_shape (x ! i)) = Inr (params, osh)"
    and first: "get_variables params G = Inr (G', ws)"
    and nm: "vs_name (cur_scope G) = scope_join (scope_join (vs_name (cur_scope g)) (name self)) nm"
    and ext: "variables g = variables G' @ zs"
  shows "timestep_body self r0 i (g, x, lw) =
           Inr (g, x[i := LayerOut cn ws (x ! i) osh],
                Some (get_collection g (scope_join (vs_name (cur_scope g)) (name self))))"
proof -
  let ?h = "g\<lparr>cur_scope := inner_scope self nm Reuse (cur_scope g)\<rparr>"
  have "get_variables params ?h = Inr (?h, ws)"
    by (rule get_variables_again [OF first, where zs = zs]) (simp_all add: ext nm)
  with timestep_body_tl [OF cls args i(2) sp, of r0 g lw] i(1) show ?thesis
    by (simp add: timestep_reuse_def)
qed

lemma later_timesteps:
  assumes cls: "layer_class self = Val (tl_layer cn spec)"
    and args: "layer_args self = Val kw" "map_of kw ''name'' = Some (PyStr nm)"
    and sp: "spec kw shp = Inr (params, osh)"
    and first: "get_variables params G = Inr (G', ws)"
    and nm: "vs_name (cur_scope G) = scope_join (scope_join (vs_name (cur_scope g)) (name self)) nm"
    and ext: "variables g = variables G' @ zs"
    and idx: "distinct is" "\<forall>i\<in>set is. 0 < i \<and> i < length x \<and> get_shape (x ! i) = shp"
  shows "timestep_loop self r0 is (g, x, lw) =
           Inr (g, map (\<lambda>j. if j \<in> set is then LayerOut cn ws (x ! j) osh else x ! j) [0..<length x],
                if is = [] then lw
                else Some (get_collection g (scope_join (vs_name (cur_scope g)) (name self))))"
  using idx
proof (induction "is" arbitrary: x lw)
  case Nil
  then show ?case by (simp add: map_nth)
next
  case (Cons i "is")
  let ?x1 = "x[i := LayerOut cn ws (x ! i) osh]"
  let ?lw1 = "Some (get_collection g (scope_join (vs_name (cur_scope g)) (name self)))"
  from Cons.prems have i: "0 < i" "i < length x" and shi: "get_shape (x ! i) = shp"
    and notin: "i \<notin> set is" and dis: "distinct is"
    by simp_all
  have body: "timestep_body self r0 i (g, x, lw) = Inr (g, ?x1, ?lw1)"
    using sp shi by (intro later_timestep [OF cls args i _ first nm ext]) simp
  have rest: "\<forall>j\<in>set is. 0 < j \<and> j < length ?x1 \<and> get_shape (?x1 ! j) = shp"
    using Cons.prems notin by (auto simp: nth_list_update)
  have xs: "map (\<lambda>j. if j \<in> set is then LayerOut cn ws (?x1 ! j) osh else ?x1 ! j) [0..<length ?x1]
          = map (\<lambda>j. if j \<in> set (i # is) then LayerOut cn ws (x ! j) osh else x ! j) [0..<length x]"
    using notin i by (auto simp: nth_list_update)
  show ?case
    using body Cons.IH [OF dis rest, of ?lw1] xs by simp
qed


lemma tf_stack_same_shape:
  assumes "xs \<noteq> []" and "\<forall>t\<in>set xs. get_shape t = s"
  shows "tf_stack xs axis =
           (if length s < axis then Inl TFError
            else Inr (StackOut xs axis (take axis s @ [Some (length xs)] @ drop axis s)))"
  using assms by (cases xs) (simp_all add: tf_stack_def merge_shapes_same)

lemma base_call_fields [simp]:
  "layer_class (base_call self prev) = layer_class self"
  "layer_args (base_call self prev) = layer_args self"
  "name (base_call self prev) = name self"
  "local_weights (base_call self prev) = local_weights self"
  "inputs (base_call self prev) = pl_outputs prev"
  by (simp_all add: base_call_def)

lemma call_3d:
  assumes "pl_outputs prev = TensorV t" and "get_shape t = [b, Some T, d]"
  shows "call self prev g =
     (case timestep_loop (base_call self prev) (vs_reuse (cur_scope g)) [0..<T]
             (g, map (\<lambda>i. UnstackOut t 1 i [b, d]) [0..<T], local_weights self) of
        Inl e \<Rightarrow> Inl e
      | Inr st \<Rightarrow> finish_call (base_call self prev) st)"
proof -
  have same: "(base_call self prev)\<lparr>inputs := TensorV t\<rparr> = base_call self prev"
    using assms(1) by (simp add: base_call_def)
  show ?thesis
    using assms
    by (simp add: call_def Let_def normalize_inputs_def shape_getitem_def tf_unstack_def
          py_range_def same)
qed

lemma call_no_timestep:
  assumes "pl_outputs prev = TensorV t" and "get_shape t = [b, Some 0, d]"
  shows "call self prev g = Inl TFError"
  by (simp add: call_3d [OF assms] finish_call_def tf_stack_def)

lemma finish_call_Inr:
  assumes "finish_call self (g, xs, lw) = Inr (g', s')"
  shows "g' = g \<and> local_weights s' = lw
         \<and> (\<exists>ws out. lw = Some ws \<and> tf_stack xs 1 = Inr out \<and> outputs s' = Some out
               \<and> all_layers s' = all_layers self @ [out]
               \<and> all_params s' = all_params self @ ws)"
  using assms
  by (auto simp: finish_call_def add_layers_def add_params_def Let_def
        split: sum.splits option.splits)

lemma finish_call_same_shape:
  assumes "xs \<noteq> []" and "\<forall>t\<in>set xs. get_shape t = osh" and "osh \<noteq> []"
  shows "\<exists>s'. finish_call self (g, xs, Some ws) = Inr (g, s')"
  using tf_stack_same_shape [OF assms(1,2), of 1] assms(3)
  by (cases osh) (simp_all add: finish_call_def add_layers_def add_params_def Let_def)

lemma finish_call_rank0:
  assumes "xs \<noteq> []" and "\<forall>t\<in>set xs. get_shape t = []"
  shows "finish_call self (g, xs, lw) = Inl TFError"
  using tf_stack_same_shape [OF assms(1,2), of 1]
  by (simp add: finish_call_def)

lemma upt_first: "0 < T \<Longrightarrow> [0..<T] = 0 # [1..<T]"
  by (simp add: upt_conv_Cons)

lemma call_tl:
  assumes cls: "layer_class self = Val (tl_layer cn spec)"
    and args: "layer_args self = Val kw" "map_of kw ''name'' = Some (PyStr nm)"
    and inp: "pl_outputs prev = TensorV t" "get_shape t = [b, Some T, d]"
    and T: "0 < T"
    and sp: "spec kw [b, d] = Inr (params, osh)"
  shows "call self prev g =
     (case get_variables params
             (g\<lparr>cur_scope := inner_scope self nm (vs_reuse (cur_scope g)) (cur_scope g)\<rparr>) of
        Inl e \<Rightarrow> Inl e
      | Inr (G', ws) \<Rightarrow>
          finish_call (base_call self prev)
            (G'\<lparr>cur_scope := cur_scope g\<rparr>,
             map (\<lambda>j. LayerOut cn ws (UnstackOut t 1 j [b, d]) osh) [0..<T],
             Some (get_collection G' (layer_scope_name self g))))"
proof -
  let ?self = "base_call self prev"
  let ?r0 = "vs_reuse (cur_scope g)"
  let ?x = "map (\<lambda>i. UnstackOut t 1 i [b, d]) [0..<T]"
  let ?G = "g\<lparr>cur_scope := inner_scope self nm ?r0 (cur_scope g)\<rparr>"
  have cls': "layer_class ?self = Val (tl_layer cn spec)"
    and args': "layer_args ?self = Val kw"
    using cls args by simp_all
  have len: "0 < length ?x" using T by simp
  have sp0: "spec kw (get_shape (?x ! 0)) = Inr (params, osh)"
    using T sp by simp
  have body0: "timestep_body ?self ?r0 0 (g, ?x, local_weights self) =
     (case get_variables params ?G of
        Inl e \<Rightarrow> Inl e
      | Inr (g2, ws) \<Rightarrow>
          Inr (g2\<lparr>cur_scope := cur_scope g\<rparr>, ?x[0 := LayerOut cn ws (?x ! 0) osh],
               Some (get_collection g2 (layer_scope_name self g))))"
    using timestep_body_tl [OF cls' args' args(2) len sp0, of ?r0 g "local_weights self"]
    unfolding base_call_fields layer_scope_name_def inner_scope_def
    by (simp add: timestep_reuse_def)
  show ?thesis
  proof (cases "get_variables params ?G")
    case (Inl e)
    with body0 show ?thesis
      by (simp add: call_3d [OF inp] upt_first [OF T])
  next
    case (Inr r)
    obtain G' ws where r: "r = (G', ws)" by (cases r)
    let ?g1 = "G'\<lparr>cur_scope := cur_scope g\<rparr>"
    let ?x1 = "?x[0 := LayerOut cn ws (?x ! 0) osh]"
    let ?lw1 = "Some (get_collection G' (layer_scope_name self g))"
    from Inr r have first: "get_variables params ?G = Inr (G', ws)" by simp
    have nm: "vs_name (cur_scope ?G) =
                scope_join (scope_join (vs_name (cur_scope ?g1)) (name ?self)) nm"
      by simp
    have ext: "variables ?g1 = variables G' @ []" by simp
    have idx: "\<forall>i\<in>set [1..<T]. 0 < i \<and> i < length ?x1 \<and> get_shape (?x1 ! i) = [b, d]"
      by auto
    have rest: "timestep_loop ?self ?r0 [1..<T] (?g1, ?x1, ?lw1) =
        Inr (?g1,
             map (\<lambda>j. if j \<in> set [1..<T] then LayerOut cn ws (?x1 ! j) osh else ?x1 ! j)
               [0..<length ?x1],
             if [1..<T] = [] then ?lw1
             else Some (get_collection ?g1 (scope_join (vs_name (cur_scope ?g1)) (name ?self))))"
      by (rule later_timesteps [OF cls' args' args(2) sp first nm ext _ idx]) simp
    have xs: "map (\<lambda>j. if j \<in> set [1..<T] then LayerOut cn ws (?x1 ! j) osh else ?x1 ! j)
                [0..<length ?x1]
            = map (\<lambda>j. LayerOut cn ws (UnstackOut t 1 j [b, d]) osh) [0..<T]"
      using T by (auto simp: nth_list_update)
    have lws: "(if [1..<T] = [] then ?lw1
                else Some (get_collection ?g1 (scope_join (vs_name (cur_scope ?g1)) (name ?self))))
               = ?lw1"
      by (simp add: layer_scope_name_def)
    from body0 first rest xs lws show ?thesis
      by (simp add: call_3d [OF inp] upt_first [OF T])
  qed
qed

lemma direct_invoke_tl:
  assumes "map_of kw ''name'' = Some (PyStr nm)"
    and "spec kw (get_shape (il_outputs il)) = Inr (params, osh)"
  shows "direct_invoke (tl_layer cn spec) il kw (name self) g =
     (case get_variables params
             (g\<lparr>cur_scope := inner_scope self nm (vs_reuse (cur_scope g)) (cur_scope g)\<rparr>) of
        Inl e \<Rightarrow> Inl e
      | Inr (G', ws) \<Rightarrow>
          Inr (G'\<lparr>cur_scope := cur_scope g\<rparr>, LayerOut cn ws (il_outputs il) osh))"
  using assms
  by (simp add: direct_invoke_def variable_scope_def tl_layer_def Let_def inner_scope_def
        split: sum.splits prod.splits)

lemma call_first_timestep:
  assumes inp: "pl_outputs prev = TensorV t" "get_shape t = [b, Some T, d]"
    and ok: "call self prev g = Inr r"
  shows "0 < T \<and> (\<exists>st. timestep_body (base_call self prev) (vs_reuse (cur_scope g)) 0
                    (g, map (\<lambda>i. UnstackOut t 1 i [b, d]) [0..<T], local_weights self) = Inr st)"
proof -
  have T: "0 < T"
    using call_no_timestep [OF inp(1), of b d self g] inp(2) ok by (cases T) simp_all
  with ok show ?thesis
    by (auto simp: call_3d [OF inp] upt_first [OF T] split: sum.splits)
qed

lemma call_tl_success:
  assumes cls: "layer_class self = Val (tl_layer cn spec)"
    and inp: "pl_outputs prev = TensorV t" "get_shape t = [b, Some T, d]"
    and ok: "call self prev g = Inr (g', s')"
  obtains kw nm params osh G' ws where
    "layer_args self = Val kw" "map_of kw ''name'' = Some (PyStr nm)" "0 < T"
    "spec kw [b, d] = Inr (params, osh)"
    "get_variables params
       (g\<lparr>cur_scope := inner_scope self nm (vs_reuse (cur_scope g)) (cur_scope g)\<rparr>) = Inr (G', ws)"
    "finish_call (base_call self prev)
       (G'\<lparr>cur_scope := cur_scope g\<rparr>,
        map (\<lambda>j. LayerOut cn ws (UnstackOut t 1 j [b, d]) osh) [0..<T],
        Some (get_collection G' (layer_scope_name self g))) = Inr (g', s')"
proof -
  from call_first_timestep [OF inp ok] obtain st where T: "0 < T"
    and body: "timestep_body (base_call self prev) (vs_reuse (cur_scope g)) 0
                 (g, map (\<lambda>i. UnstackOut t 1 i [b, d]) [0..<T], local_weights self) = Inr st"
    by blast
  have cls': "layer_class (base_call self prev) = Val (tl_layer cn spec)"
    using cls by simp
  from timestep_body_Inr_tl [OF cls' body] T obtain kw nm params osh where
    args: "layer_args self = Val kw" "map_of kw ''name'' = Some (PyStr nm)"
    and sp: "spec kw [b, d] = Inr (params, osh)"
    by auto
  note cf = call_tl [OF cls args inp T sp, of g]
  show thesis
  proof (cases "get_variables params
       (g\<lparr>cur_scope := inner_scope self nm (vs_reuse (cur_scope g)) (cur_scope g)\<rparr>)")
    case (Inl e)
    with cf ok show thesis by simp
  next
    case (Inr r)
    obtain G' ws where "r = (G', ws)" by (cases r)
    with Inr cf ok that [OF args T sp] show thesis by simp
  qed
qed

lemma timestep_body_missing_name:
  assumes "layer_args self = Val kw" and "map_of kw ''name'' = None"
  shows "timestep_body self r0 i (g, x, lw) = Inl (if i < length x then KeyError else IndexError)"
  using assms by (simp add: timestep_body_def variable_scope_def Let_def)

lemma call_Inr_loop:
  assumes "call self prev g = Inr r"
  shows "\<exists>self2 num x st. layer_args self2 = layer_args self
           \<and> timestep_loop self2 (vs_reuse (cur_scope g)) [0..<num] (g, x, local_weights self) = Inr st
           \<and> length x = num \<and> finish_call self2 st = Inr r"
proof -
  let ?self1 = "base_call self prev"
  from assms obtain t where t: "normalize_inputs (inputs ?self1) = Inr t"
    by (auto simp: call_def Let_def split: sum.splits)
  let ?self2 = "?self1\<lparr>inputs := TensorV t\<rparr>"
  from assms t obtain timestep x idx st where
    a: "shape_getitem (get_shape t) 1 = Inr timestep" and b: "tf_unstack t 1 = Inr x"
    and c: "py_range timestep = Inr idx"
    and d: "timestep_loop ?self2 (vs_reuse (cur_scope g)) idx (g, x, local_weights ?self2) = Inr st"
    and e: "finish_call ?self2 st = Inr r"
    by (auto simp: call_def Let_def split: sum.splits)
  from a b c have "idx = [0..<length x]"
    by (auto simp: shape_getitem_def tf_unstack_def py_range_def Let_def
          split: if_splits option.splits)
  with d e show ?thesis
    by (intro exI [of _ ?self2] exI [of _ "length x"] exI [of _ x] exI [of _ st]) simp
qed



lemma timestep_body_Inr:
  assumes "timestep_body self r0 i (g, x, lw) = Inr (g', x', lw')"
    and "layer_class self = Val c" and "layer_args self = Val kw"
  shows "i < length x \<and>
         (\<exists>nm g1 g2 y. cls_call c (InputLayer (x ! i) nm) kw g1 = Inr (g2, y) \<and> x' = x[i := y])"
  using assms
  by (auto simp: timestep_body_def variable_scope_def Let_def
        split: sum.splits prod.splits option.splits pyval.splits if_splits)

lemma timestep_loop_shapes:
  assumes cls: "layer_class self = Val c" and args: "layer_args self = Val kw"
    and feat: "\<forall>il g1 g2 y. get_shape (il_outputs il) = [b, d] \<longrightarrow>
                 cls_call c il kw g1 = Inr (g2, y) \<longrightarrow> get_shape y = [b, d']"
  shows "distinct is \<Longrightarrow> \<forall>i\<in>set is. get_shape (x ! i) = [b, d] \<Longrightarrow>
         timestep_loop self r0 is (g, x, lw) = Inr (g', x', lw') \<Longrightarrow>
         length x' = length x \<and>
         (\<forall>j<length x. (j \<in> set is \<longrightarrow> get_shape (x' ! j) = [b, d']) \<and>
                        (j \<notin> set is \<longrightarrow> x' ! j = x ! j))"
proof (induction "is" arbitrary: g x lw)
  case Nil
  then show ?case by simp
next
  case (Cons i "is")
  from Cons.prems(3) obtain g1 x1 lw1 where
    body: "timestep_body self r0 i (g, x, lw) = Inr (g1, x1, lw1)"
    and rest: "timestep_loop self r0 is (g1, x1, lw1) = Inr (g', x', lw')"
    by (auto split: sum.splits)
  from timestep_body_Inr [OF body cls args] obtain nm ga gb y where
    i: "i < length x"
    and cc: "cls_call c (InputLayer (x ! i) nm) kw ga = Inr (gb, y)" and x1: "x1 = x[i := y]"
    by blast
  from Cons.prems(2) have "get_shape (il_outputs (InputLayer (x ! i) nm)) = [b, d]"
    by (simp add: InputLayer_def)
  with feat cc have y: "get_shape y = [b, d']" by blast
  from Cons.prems(1) have notin: "i \<notin> set is" and dis: "distinct is" by simp_all
  have shapes: "\<forall>j\<in>set is. get_shape (x1 ! j) = [b, d]"
    using Cons.prems(2) notin x1 i by (auto simp: nth_list_update)
  from Cons.IH [OF dis shapes rest] have
    len: "length x' = length x1"
    and ih: "\<forall>j<length x1. (j \<in> set is \<longrightarrow> get_shape (x' ! j) = [b, d']) \<and>
                            (j \<notin> set is \<longrightarrow> x' ! j = x1 ! j)"
    by simp_all
  show ?case
    using len ih x1 i y notin by (auto simp: nth_list_update)
qed

lemma dense_output_shape:
  "\<forall>il g1 g2 y. get_shape (il_outputs il) = [Some 32, Some 100] \<longrightarrow>
      cls_call DenseLayer il dense_args g1 = Inr (g2, y) \<longrightarrow> get_shape y = [Some 32, Some 50]"
  by (auto simp: DenseLayer_def tl_layer_def dense_spec_def dense_shapes_def dense_args_def
        variable_scope_def
        Let_def split: sum.splits prod.splits)

lemma get_variable_creates:
  "vs_reuse (cur_scope g) = NoReuse \<Longrightarrow> get_variable n s g = Inr (g', v) \<Longrightarrow>
   variables g' = variables g @ [v]"
  by (auto simp: get_variable_def Let_def split: option.splits if_splits)

lemma get_variables_create:
  "vs_reuse (cur_scope g) = NoReuse \<Longrightarrow> get_variables ps g = Inr (g', ws) \<Longrightarrow>
   variables g' = variables g @ ws"
proof (induction ps arbitrary: g ws)
  case Nil
  then show ?case by simp
next
  case (Cons p ps)
  obtain n s where p: "p = (n, s)" by (cases p)
  from Cons.prems(2) p obtain g1 v vs where
    a: "get_variable n s g = Inr (g1, v)" and b: "get_variables ps g1 = Inr (g', vs)"
    and ws: "ws = v # vs"
    by (auto split: sum.splits)
  from get_variable_scope [OF a] Cons.prems(1) have "vs_reuse (cur_scope g1) = NoReuse" by simp
  from Cons.IH [OF this b] get_variable_creates [OF Cons.prems(1) a] ws show ?case by simp
qed

lemma timestep_body_tl_Inr:
  assumes cls: "layer_class self = Val (tl_layer cn spec)"
    and body: "timestep_body self r0 i (g, x, lw) = Inr (g', x', lw')"
  obtains nm params osh G' ws where
    "get_variables params
       (g\<lparr>cur_scope := inner_scope self nm (timestep_reuse r0 i) (cur_scope g)\<rparr>) = Inr (G', ws)"
    "g' = G'\<lparr>cur_scope := cur_scope g\<rparr>" "x' = x[i := LayerOut cn ws (x ! i) osh]"
    "lw' = Some (get_collection G' (layer_scope_name self g))"
proof -
  from timestep_body_Inr_tl [OF cls body] obtain kw nm params osh where
    args: "layer_args self = Val kw" "map_of kw ''name'' = Some (PyStr nm)"
    and i: "i < length x" and sp: "spec kw (get_shape (x ! i)) = Inr (params, osh)"
    by blast
  note cf = timestep_body_tl [OF cls args i sp, of r0 g lw]
  show thesis
  proof (cases "get_variables params
       (g\<lparr>cur_scope := inner_scope self nm (timestep_reuse r0 i) (cur_scope g)\<rparr>)")
    case (Inl e)
    with cf body show thesis by simp
  next
    case (Inr r)
    obtain G' ws where "r = (G', ws)" by (cases r)
    with Inr cf body that [of params nm G' ws osh] show thesis
      by (simp add: layer_scope_name_def)
  qed
qed

lemma later_body_same_graph:
  assumes cls: "layer_class self = Val (tl_layer cn spec)"
    and i: "0 < i"
    and later: "timestep_body self r0 i (g1, x1, lw1) = Inr (g2, x2, lw2)"
  shows "g2 = g1 \<and> lw2 = Some (get_collection g1 (layer_scope_name self g1))"
proof (rule timestep_body_tl_Inr [OF cls later])
  fix nm2 params2 osh2 G2 ws2
  assume gv2: "get_variables params2
       (g1\<lparr>cur_scope := inner_scope self nm2 (timestep_reuse r0 i) (cur_scope g1)\<rparr>) = Inr (G2, ws2)"
    and g2: "g2 = G2\<lparr>cur_scope := cur_scope g1\<rparr>"
    and lw2: "lw2 = Some (get_collection G2 (layer_scope_name self g1))"
  have r: "timestep_reuse r0 i = Reuse" using i by (simp add: timestep_reuse_def)
  have "vs_reuse (cur_scope (g1\<lparr>cur_scope := inner_scope self nm2 Reuse (cur_scope g1)\<rparr>)) = Reuse"
    by simp
  with get_variables_reuse_same [OF gv2 [unfolded r]]
  have G2: "G2 = g1\<lparr>cur_scope := inner_scope self nm2 Reuse (cur_scope g1)\<rparr>" .
  have a: "g2 = g1" unfolding g2 G2 by (cases g1) simp
  have b: "lw2 = Some (get_collection g1 (layer_scope_name self g1))"
    unfolding lw2 G2 by simp
  from a b show ?thesis ..
qed




lemma get_variable_result:
  assumes "get_variable n s g = Inr (g', v)"
  shows "v \<in> set (variables g') \<and> var_name v = scope_join (vs_name (cur_scope g)) n"
  using assms
  by (auto simp: get_variable_def Let_def find_Some_iff in_set_conv_nth
        split: option.splits if_splits)

lemma get_variables_result:
  "get_variables ps g = Inr (g', ws) \<Longrightarrow> v \<in> set ws \<Longrightarrow>
   v \<in> set (variables g') \<and> (\<exists>n. var_name v = scope_join (vs_name (cur_scope g)) n)"
proof (induction ps arbitrary: g ws)
  case Nil
  then show ?case by simp
next
  case (Cons p ps)
  obtain n s where p: "p = (n, s)" by (cases p)
  from Cons.prems(1) p obtain g1 u us where
    a: "get_variable n s g = Inr (g1, u)" and b: "get_variables ps g1 = Inr (g', us)"
    and ws: "ws = u # us"
    by (auto split: sum.splits)
  show ?case
  proof (cases "v = u")
    case True
    from get_variables_extends [OF b] obtain ys where "variables g' = variables g1 @ ys" ..
    with get_variable_result [OF a] True show ?thesis by auto
  next
    case False
    with Cons.prems(2) ws have "v \<in> set us" by simp
    from Cons.IH [OF b this] get_variable_scope [OF a] show ?thesis by simp
  qed
qed

lemma timestep_body_captures:
  assumes "timestep_body self r0 i (g, x, lw) = Inr (g', x', lw')"
  shows "lw' = Some (get_collection g' (layer_scope_name self g))"
  using assms
  by (auto simp: timestep_body_def variable_scope_def enter_scope_def layer_scope_name_def Let_def
        split: sum.splits prod.splits attr.splits option.splits pyval.splits if_splits)

lemma timestep_body_eq:
  assumes cls: "layer_class self = Val c"
    and args: "layer_args self = Val kw" "map_of kw ''name'' = Some (PyStr nm)"
    and i: "i < length x"
  shows "timestep_body self r0 i (g, x, lw) =
           (case cls_call c (InputLayer (x ! i) (nm @ str_nat i)) kw
                   (g\<lparr>cur_scope :=
                        \<lparr>vs_name = layer_scope_name self g,
                         vs_reuse = (if i = 0
                                     then (if r0 = NoReuse then vs_reuse (cur_scope g) else r0)
                                     else Reuse)\<rparr>\<rparr>) of
              Inl e \<Rightarrow> Inl e
            | Inr (g2, y) \<Rightarrow>
                Inr (g2\<lparr>cur_scope := cur_scope g\<rparr>, x[i := y],
                     Some (get_collection g2 (layer_scope_name self g))))"
  using assms
  by (simp add: timestep_body_def variable_scope_def enter_scope_def timestep_reuse_def
        layer_scope_name_def Let_def split: sum.splits prod.splits)


subsection \<open>The description\<close>

text \<open>
  Claim C8. Building the description never fails on the two attribute reads: the list of
  fragments is always produced, a fragment is left out when \<open>layer_class\<close> is absent or
  \<^verbatim>\<open>None\<close> and when \<open>layer_args\<close> is absent, and the description is what \<^verbatim>\<open>_str\<close>
  makes of that list.
\<close>

theorem str_omits_missing_attributes:
  "additional_str self =
     Inr ((case layer_class self of Val c \<Rightarrow> [''layer_class: '' @ cls_name c] | _ \<Rightarrow> []) @
          (case layer_args self of
             Absent \<Rightarrow> []
           | PyNone \<Rightarrow> [''layer_args: None'']
           | Val kw \<Rightarrow> [''layer_args: '' @ str_dict kw]))
   \<and> fst (str_td base_str self) =
       base_str self
         ((case layer_class self of Val c \<Rightarrow> [''layer_class: '' @ cls_name c] | _ \<Rightarrow> []) @
          (case layer_args self of
             Absent \<Rightarrow> []
           | PyNone \<Rightarrow> [''layer_args: None'']
           | Val kw \<Rightarrow> [''layer_args: '' @ str_dict kw]))"
  by (simp add: str_td_def additional_str_def try_append_def layer_class_fragment_def
        layer_args_fragment_def split: attr.splits)

text \<open>
  Claim C9. The description leaves the instance as it was, and a second description of
  the instance gives the same result as the first.
\<close>

theorem str_twice_same:
  "snd (str_td base_str self) = self
   \<and> str_td base_str (snd (str_td base_str self)) = str_td base_str self"
  by (simp add: str_td_def split: sum.splits)

subsection \<open>Normalization of the inputs\<close>

text \<open>
  Claim C4. A sequence of \<open>T \<ge> 1\<close> tensors of shape \<open>(b, d)\<close>, one per timestep, is
  stacked (shape \<open>(T, b, d)\<close>) and transposed with the permutation \<open>[1, 0, 2]\<close>, which gives
  a tensor of shape \<open>(b, T, d)\<close>; inputs that are a tensor already stay as they are.
\<close>

theorem normalize_sequence:
  assumes "ts \<noteq> []" and "\<forall>t\<in>set ts. get_shape t = [b, d]"
  shows "normalize_inputs (SeqV ts) =
           Inr (TransposeOut (StackOut ts 0 [Some (length ts), b, d]) [1, 0, 2]
                  [b, Some (length ts), d])
         \<and> normalize_inputs (TensorV u) = Inr u"
  using tf_stack_same_shape [OF assms, of 0]
  by (simp add: normalize_inputs_def tf_transpose_def)

theorem normalize_sequence_witness:
  "normalize_inputs
     (SeqV [Placeholder ''x0'' [Some 32, Some 100], Placeholder ''x1'' [Some 32, Some 100]]) =
   Inr (TransposeOut
          (StackOut [Placeholder ''x0'' [Some 32, Some 100], Placeholder ''x1'' [Some 32, Some 100]]
             0 [Some 2, Some 32, Some 100])
          [1, 0, 2] [Some 32, Some 2, Some 100])
   \<and> normalize_inputs (TensorV (encode_seqs 20)) = Inr (encode_seqs 20)"
  using normalize_sequence
          [of "[Placeholder ''x0'' [Some 32, Some 100], Placeholder ''x1'' [Some 32, Some 100]]"
              "Some 32" "Some 100" "encode_seqs 20"]
  by simp

subsection \<open>One set of parameters for all timesteps\<close>

text \<open>
  Claim C1, as stated. The claim is about every inner class. With the class that makes its
  parameter with \<^verbatim>\<open>tf.Variable\<close>, the layer built over one timestep ends with one
  variable and the layer built over three timesteps ends with three.
\<close>

theorem shared_parameters_counterexample:
  "\<not> isl (call time_variable (input_net 1) fresh_graph)
   \<and> variables (fst (projr (call time_variable (input_net 1) fresh_graph))) = [variable_param 0]
   \<and> \<not> isl (call time_variable (input_net 3) fresh_graph)
   \<and> variables (fst (projr (call time_variable (input_net 3) fresh_graph))) =
       [variable_param 0, variable_param 1, variable_param 2]"
  by code_simp

text \<open>
  Claim C1, amended. The inner class is a class of the library (it obtains its parameters
  from \<^verbatim>\<open>tf.get_variable\<close> in a scope of its own name). When the layer is built over an
  input of shape \<open>(b, T1, d)\<close>, then built from the same graph over an input of shape
  \<open>(b, T2, d)\<close> with \<open>T2 \<ge> 1\<close> it ends in the same graph, with the same variables and the
  same captured parameters; that graph is the one that a single invocation of the class on
  any slice of shape \<open>(b, d)\<close> in the layer's scope ends in; and the outputs of all
  timesteps are computed from one and the same list of variables.
\<close>

theorem shared_parameters_independent_of_timesteps:
  assumes cls: "layer_class self = Val (tl_layer cn spec)"
    and args: "layer_args self = Val kw"
    and inp1: "pl_outputs prev1 = TensorV t1" "get_shape t1 = [b, Some T1, d]"
    and inp2: "pl_outputs prev2 = TensorV t2" "get_shape t2 = [b, Some T2, d]"
    and T2: "0 < T2"
    and ok: "call self prev1 g = Inr (g1, s1)"
  shows "(\<exists>s2. call self prev2 g = Inr (g1, s2) \<and> local_weights s2 = local_weights s1)
       \<and> (\<forall>il. get_shape (il_outputs il) = [b, d] \<longrightarrow>
             (\<exists>y. direct_invoke (tl_layer cn spec) il kw (name self) g = Inr (g1, y)))
       \<and> (\<exists>ws osh out_shape.
             outputs s1 =
               Some (StackOut (map (\<lambda>i. LayerOut cn ws (UnstackOut t1 1 i [b, d]) osh) [0..<T1])
                       1 out_shape))"
proof -
  from call_tl_success [OF cls inp1 ok] obtain kw' nm params osh G' ws where
    kw': "layer_args self = Val kw'"
    and nm': "map_of kw' ''name'' = Some (PyStr nm)" and T1: "0 < T1"
    and sp': "spec kw' [b, d] = Inr (params, osh)"
    and gv: "get_variables params
       (g\<lparr>cur_scope := inner_scope self nm (vs_reuse (cur_scope g)) (cur_scope g)\<rparr>) = Inr (G', ws)"
    and fin: "finish_call (base_call self prev1)
       (G'\<lparr>cur_scope := cur_scope g\<rparr>,
        map (\<lambda>j. LayerOut cn ws (UnstackOut t1 1 j [b, d]) osh) [0..<T1],
        Some (get_collection G' (layer_scope_name self g))) = Inr (g1, s1)"
    by blast
  from kw' args have "kw' = kw" by simp
  with nm' sp' have nm: "map_of kw ''name'' = Some (PyStr nm)"
    and sp: "spec kw [b, d] = Inr (params, osh)"
    by simp_all
  let ?x1 = "map (\<lambda>j. LayerOut cn ws (UnstackOut t1 1 j [b, d]) osh) [0..<T1]"
  let ?x2 = "map (\<lambda>j. LayerOut cn ws (UnstackOut t2 1 j [b, d]) osh) [0..<T2]"
  let ?lw = "get_collection G' (layer_scope_name self g)"
  from finish_call_Inr [OF fin] obtain out where
    g1: "g1 = G'\<lparr>cur_scope := cur_scope g\<rparr>" and lw1: "local_weights s1 = Some ?lw"
    and st: "tf_stack ?x1 1 = Inr out" and out: "outputs s1 = Some out"
    by auto
  have ne1: "?x1 \<noteq> []" and sh1: "\<forall>u\<in>set ?x1. get_shape u = osh"
    using T1 by auto
  have osh: "osh \<noteq> []"
    using tf_stack_same_shape [OF ne1 sh1, of 1] st by auto
  have ne2: "?x2 \<noteq> []" and sh2: "\<forall>u\<in>set ?x2. get_shape u = osh"
    using T2 by auto
  from finish_call_same_shape [OF ne2 sh2 osh, of "base_call self prev2" g1 ?lw]
  obtain s2 where fin2: "finish_call (base_call self prev2) (g1, ?x2, Some ?lw) = Inr (g1, s2)" ..
  have c2: "call self prev2 g = Inr (g1, s2)"
    using call_tl [OF cls args nm inp2 T2 sp, of g] gv fin2 g1 by simp
  from finish_call_Inr [OF fin2] have "local_weights s2 = Some ?lw" by simp
  with c2 lw1 have first: "\<exists>s2. call self prev2 g = Inr (g1, s2) \<and> local_weights s2 = local_weights s1"
    by simp
  have second: "\<forall>il. get_shape (il_outputs il) = [b, d] \<longrightarrow>
             (\<exists>y. direct_invoke (tl_layer cn spec) il kw (name self) g = Inr (g1, y))"
    using direct_invoke_tl [OF nm, of spec _ params osh cn self g] sp gv g1 by simp
  have "out = StackOut ?x1 1 (take 1 osh @ [Some (length ?x1)] @ drop 1 osh)"
    using tf_stack_same_shape [OF ne1 sh1, of 1] st osh by (simp split: if_splits)
  with out have third: "\<exists>ws osh out_shape.
             outputs s1 =
               Some (StackOut (map (\<lambda>i. LayerOut cn ws (UnstackOut t1 1 i [b, d]) osh) [0..<T1])
                       1 out_shape)"
    by blast
  from first second third show ?thesis by blast
qed


theorem shared_parameters_witness:
  "(\<exists>s1. call time_dense (input_net 5) fresh_graph = Inr (built_graph, s1)
          \<and> local_weights s1 = Some dense_params)
   \<and> (\<exists>s2. call time_dense (input_net 20) fresh_graph = Inr (built_graph, s2)
          \<and> local_weights s2 = Some dense_params)"
proof -
  have "case call time_dense (input_net 5) fresh_graph of
          Inl e \<Rightarrow> False
        | Inr (g, s) \<Rightarrow> g = built_graph \<and> local_weights s = Some dense_params"
    by code_simp
  then obtain s1 where ok: "call time_dense (input_net 5) fresh_graph = Inr (built_graph, s1)"
    and lw: "local_weights s1 = Some dense_params"
    by (auto split: sum.splits)
  have cls: "layer_class time_dense = Val (tl_layer ''DenseLayer'' dense_spec)"
    and args: "layer_args time_dense = Val dense_args"
    by (simp_all add: time_dense_def DenseLayer_def)
  have inp: "pl_outputs (input_net T) = TensorV (encode_seqs T)"
    "get_shape (encode_seqs T) = [Some 32, Some T, Some 100]" for T
    by (simp_all add: input_net_def encode_seqs_def)
  from shared_parameters_independent_of_timesteps [OF cls args inp inp _ ok, of 20] ok lw
  show ?thesis by auto
qed

text \<open>
  Claim C3, as stated. The claim is about every inner class. With the class that makes its
  parameter with \<^verbatim>\<open>tf.Variable\<close>, the pass of index 1, made in the graph and with the
  list that the pass of index 0 leaves, allocates a second variable although its scope has
  the reuse flag set.
\<close>

theorem later_timesteps_counterexample:
  "timestep_body time_variable NoReuse 0 (variable_graph 0, [slice 2 0, slice 2 1], None) =
     Inr (variable_graph 1, [variable_out 2 0, slice 2 1], Some [variable_param 0])
   \<and> timestep_body time_variable NoReuse 1
         (variable_graph 1, [variable_out 2 0, slice 2 1], Some [variable_param 0]) =
     Inr (variable_graph 2, [variable_out 2 0, variable_out 2 1],
          Some [variable_param 0, variable_param 1])
   \<and> variables (variable_graph 2) \<noteq> variables (variable_graph 1)"
  by code_simp

text \<open>
  Claim C3, amended. In the pass of index \<open>i\<close> the loop calls the inner class on the slice
  of that index in a graph whose current scope has the name of the layer's scope, the same
  in every pass, and a reuse flag that is the one of the enclosing scope in the pass of
  index 0 and is set in every later pass; the pass returns the graph the class leaves,
  with the enclosing scope restored, the list with the output of the class at the index,
  and the collection of the scope. So a class of the library (which obtains its parameters
  from \<^verbatim>\<open>tf.get_variable\<close>) allocates nothing in a pass of index \<open>i \<ge> 1\<close>: the graph stays
  as it was and the output is computed from variables that were there; and when the
  enclosing scope does not reuse, the pass of index 0 creates the variables that its
  output is computed from.
\<close>

theorem later_timesteps_reuse_first_scope:
  assumes cls: "layer_class self = Val c"
    and args: "layer_args self = Val kw" "map_of kw ''name'' = Some (PyStr nm)"
    and i: "i < length x"
  shows "timestep_body self r0 i (g, x, lw) =
           (case cls_call c (InputLayer (x ! i) (nm @ str_nat i)) kw
                   (g\<lparr>cur_scope :=
                        \<lparr>vs_name = layer_scope_name self g,
                         vs_reuse = (if i = 0
                                     then (if r0 = NoReuse then vs_reuse (cur_scope g) else r0)
                                     else Reuse)\<rparr>\<rparr>) of
              Inl e \<Rightarrow> Inl e
            | Inr (g2, y) \<Rightarrow>
                Inr (g2\<lparr>cur_scope := cur_scope g\<rparr>, x[i := y],
                     Some (get_collection g2 (layer_scope_name self g))))
       \<and> (c = tl_layer cn spec \<longrightarrow> 0 < i \<longrightarrow>
            timestep_body self r0 i (g, x, lw) = Inr (g', x', lw') \<longrightarrow>
            g' = g \<and> (\<exists>ws osh. x' = x[i := LayerOut cn ws (x ! i) osh]
                                \<and> set ws \<subseteq> set (variables g)))
       \<and> (c = tl_layer cn spec \<longrightarrow> i = 0 \<longrightarrow> r0 = NoReuse \<longrightarrow>
            vs_reuse (cur_scope g) = NoReuse \<longrightarrow>
            timestep_body self r0 i (g, x, lw) = Inr (g', x', lw') \<longrightarrow>
            (\<exists>ws osh. variables g' = variables g @ ws
                      \<and> x' = x[0 := LayerOut cn ws (x ! 0) osh]))"
proof (intro conjI impI)
  show "timestep_body self r0 i (g, x, lw) =
           (case cls_call c (InputLayer (x ! i) (nm @ str_nat i)) kw
                   (g\<lparr>cur_scope :=
                        \<lparr>vs_name = layer_scope_name self g,
                         vs_reuse = (if i = 0
                                     then (if r0 = NoReuse then vs_reuse (cur_scope g) else r0)
                                     else Reuse)\<rparr>\<rparr>) of
              Inl e \<Rightarrow> Inl e
            | Inr (g2, y) \<Rightarrow>
                Inr (g2\<lparr>cur_scope := cur_scope g\<rparr>, x[i := y],
                     Some (get_collection g2 (layer_scope_name self g))))"
    by (rule timestep_body_eq [OF cls args i])
next
  assume c: "c = tl_layer cn spec" and pos: "0 < i"
    and body: "timestep_body self r0 i (g, x, lw) = Inr (g', x', lw')"
  from cls c have cls': "layer_class self = Val (tl_layer cn spec)" by simp
  from later_body_same_graph [OF cls' pos body] show "g' = g" by simp
  show "\<exists>ws osh. x' = x[i := LayerOut cn ws (x ! i) osh] \<and> set ws \<subseteq> set (variables g)"
  proof (rule timestep_body_tl_Inr [OF cls' body])
    fix nm2 params osh G' ws
    assume gv: "get_variables params
         (g\<lparr>cur_scope := inner_scope self nm2 (timestep_reuse r0 i) (cur_scope g)\<rparr>) = Inr (G', ws)"
      and x': "x' = x[i := LayerOut cn ws (x ! i) osh]"
    have r: "timestep_reuse r0 i = Reuse" using pos by (simp add: timestep_reuse_def)
    have "vs_reuse (cur_scope (g\<lparr>cur_scope := inner_scope self nm2 Reuse (cur_scope g)\<rparr>)) = Reuse"
      by simp
    with get_variables_reuse_same [OF gv [unfolded r]]
    have G': "G' = g\<lparr>cur_scope := inner_scope self nm2 Reuse (cur_scope g)\<rparr>" .
    have "set ws \<subseteq> set (variables g)"
    proof
      fix v assume "v \<in> set ws"
      from get_variables_result [OF gv this] have "v \<in> set (variables G')" by simp
      then show "v \<in> set (variables g)" unfolding G' by simp
    qed
    with x' show ?thesis by blast
  qed
next
  assume c: "c = tl_layer cn spec" and i0: "i = 0" and r0: "r0 = NoReuse"
    and a: "vs_reuse (cur_scope g) = NoReuse"
    and body: "timestep_body self r0 i (g, x, lw) = Inr (g', x', lw')"
  from cls c have cls': "layer_class self = Val (tl_layer cn spec)" by simp
  show "\<exists>ws osh. variables g' = variables g @ ws \<and> x' = x[0 := LayerOut cn ws (x ! 0) osh]"
  proof (rule timestep_body_tl_Inr [OF cls' body])
    fix nm2 params osh G' ws
    assume gv: "get_variables params
         (g\<lparr>cur_scope := inner_scope self nm2 (timestep_reuse r0 i) (cur_scope g)\<rparr>) = Inr (G', ws)"
      and g': "g' = G'\<lparr>cur_scope := cur_scope g\<rparr>"
      and x': "x' = x[i := LayerOut cn ws (x ! i) osh]"
    let ?G = "g\<lparr>cur_scope := inner_scope self nm2 (timestep_reuse r0 i) (cur_scope g)\<rparr>"
    have "vs_reuse (cur_scope ?G) = NoReuse"
      using r0 a i0 by (simp add: inner_scope_def enter_scope_def timestep_reuse_def)
    from get_variables_create [OF this gv] have "variables G' = variables g @ ws" by simp
    then have "variables g' = variables g @ ws" unfolding g' by simp
    with x' i0 show ?thesis by blast
  qed
qed

theorem later_timesteps_witness:
  "timestep_body time_dense NoReuse 1 (built_graph, [dense_out 2 0, slice 2 1], None) =
     Inr (built_graph, [dense_out 2 0, dense_out 2 1], Some dense_params)
   \<and> (\<exists>ws osh. [dense_out 2 0, dense_out 2 1] =
                   [dense_out 2 0, slice 2 1]
                     [1 := LayerOut ''DenseLayer'' ws ([dense_out 2 0, slice 2 1] ! 1) osh]
                 \<and> set ws \<subseteq> set (variables built_graph))
   \<and> (\<exists>ws osh. variables built_graph = variables fresh_graph @ ws
                 \<and> [dense_out 2 0, slice 2 1] =
                   [slice 2 0, slice 2 1]
                     [0 := LayerOut ''DenseLayer'' ws ([slice 2 0, slice 2 1] ! 0) osh])"
proof -
  have facts: "layer_class time_dense = Val DenseLayer" "layer_args time_dense = Val dense_args"
    "map_of dense_args ''name'' = Some (PyStr ''dense'')"
    "1 < length [dense_out 2 0, slice 2 1]"
    by (simp_all add: time_dense_def dense_args_def)
  have inner: "cls_call DenseLayer (InputLayer ([dense_out 2 0, slice 2 1] ! 1) (''dense'' @ str_nat 1))
       dense_args
       (built_graph\<lparr>cur_scope :=
          \<lparr>vs_name = layer_scope_name time_dense built_graph,
           vs_reuse = (if (1::nat) = 0
                       then (if NoReuse = NoReuse then vs_reuse (cur_scope built_graph) else NoReuse)
                       else Reuse)\<rparr>\<rparr>) =
     Inr (built_graph\<lparr>cur_scope := \<lparr>vs_name = ''time_dense'', vs_reuse = Reuse\<rparr>\<rparr>,
          dense_out 2 1)"
    by code_simp
  have coll: "get_collection built_graph (layer_scope_name time_dense built_graph) = dense_params"
    by code_simp
  have restore: "built_graph\<lparr>cur_scope := \<lparr>vs_name = ''time_dense'', vs_reuse = Reuse\<rparr>\<rparr>
                \<lparr>cur_scope := cur_scope built_graph\<rparr> = built_graph"
    by (simp add: built_graph_def)
  from later_timesteps_reuse_first_scope [OF facts, of NoReuse built_graph None]
  have "timestep_body time_dense NoReuse 1 (built_graph, [dense_out 2 0, slice 2 1], None) =
           (case cls_call DenseLayer
                   (InputLayer ([dense_out 2 0, slice 2 1] ! 1) (''dense'' @ str_nat 1)) dense_args
                   (built_graph\<lparr>cur_scope :=
                        \<lparr>vs_name = layer_scope_name time_dense built_graph,
                         vs_reuse = (if (1::nat) = 0
                                     then (if NoReuse = NoReuse
                                           then vs_reuse (cur_scope built_graph) else NoReuse)
                                     else Reuse)\<rparr>\<rparr>) of
              Inl e \<Rightarrow> Inl e
            | Inr (g2, y) \<Rightarrow>
                Inr (g2\<lparr>cur_scope := cur_scope built_graph\<rparr>,
                     [dense_out 2 0, slice 2 1][1 := y],
                     Some (get_collection g2 (layer_scope_name time_dense built_graph))))"
    by (rule conjunct1)
  then have pass1:
    "timestep_body time_dense NoReuse 1 (built_graph, [dense_out 2 0, slice 2 1], None) =
       Inr (built_graph, [dense_out 2 0, dense_out 2 1], Some dense_params)"
    unfolding inner by (simp add: coll restore)
  have pass0:
    "timestep_body time_dense NoReuse 0 (fresh_graph, [slice 2 0, slice 2 1], None) =
       Inr (built_graph, [dense_out 2 0, slice 2 1], Some dense_params)"
    by code_simp
  have dense: "DenseLayer = tl_layer ''DenseLayer'' dense_spec"
    by (simp add: DenseLayer_def)
  have fresh: "vs_reuse (cur_scope fresh_graph) = NoReuse"
    by (simp add: fresh_graph_def root_scope_def)
  from later_timesteps_reuse_first_scope
         [OF facts, where ?r0.0 = NoReuse and g = built_graph and lw = None
            and cn = "''DenseLayer''" and spec = dense_spec and g' = built_graph
            and x' = "[dense_out 2 0, dense_out 2 1]" and lw' = "Some dense_params"]
       dense pass1
  have later: "\<exists>ws osh. [dense_out 2 0, dense_out 2 1] =
                   [dense_out 2 0, slice 2 1]
                     [1 := LayerOut ''DenseLayer'' ws ([dense_out 2 0, slice 2 1] ! 1) osh]
                 \<and> set ws \<subseteq> set (variables built_graph)"
    by simp
  have facts0: "0 < length [slice 2 0, slice 2 1]" by simp
  from later_timesteps_reuse_first_scope
         [OF facts(1-3) facts0, where ?r0.0 = NoReuse and g = fresh_graph and lw = None
            and cn = "''DenseLayer''" and spec = dense_spec and g' = built_graph
            and x' = "[dense_out 2 0, slice 2 1]" and lw' = "Some dense_params"]
       dense pass0 fresh
  have first: "\<exists>ws osh. variables built_graph = variables fresh_graph @ ws
                 \<and> [dense_out 2 0, slice 2 1] =
                   [slice 2 0, slice 2 1]
                     [0 := LayerOut ''DenseLayer'' ws ([slice 2 0, slice 2 1] ! 0) osh]"
    by simp
  from pass1 later first show ?thesis by (intro conjI)
qed

text \<open>
  Claim C6, as stated. The claim is about every inner class and says that the captured set
  does not grow. With the class that makes its parameter with \<^verbatim>\<open>tf.Variable\<close>, over
  three timesteps, the pass of index 0 captures one variable and the list registered at
  the end has three.
\<close>

theorem parameters_captured_counterexample:
  "snd (snd (projr (timestep_body time_variable NoReuse 0
                      (fresh_graph, [slice 3 0, slice 3 1, slice 3 2], None)))) =
     Some [variable_param 0]
   \<and> \<not> isl (call time_variable (input_net 3) fresh_graph)
   \<and> local_weights (snd (projr (call time_variable (input_net 3) fresh_graph))) =
       Some [variable_param 0, variable_param 1, variable_param 2]"
  by code_simp

text \<open>
  Claim C6, amended. The capture of line 115 is made in every pass of the loop that
  succeeds, each time as the collection of the layer's scope in the graph the pass leaves,
  and the capture of the last pass is the one that is registered. When the inner class is
  a class of the library and the call succeeds, the registered list is that collection in
  the final graph, and the pass of index 0 alone already ends in the final graph with this
  list: the list does not grow in the later passes.
\<close>

theorem parameters_captured_in_first_timestep:
  assumes cls: "layer_class self = Val (tl_layer cn spec)"
    and inp: "pl_outputs prev = TensorV t" "get_shape t = [b, Some T, d]"
    and ok: "call self prev g = Inr (g', s')"
  shows "local_weights s' = Some (get_collection g' (layer_scope_name self g))
       \<and> (\<exists>x1. timestep_body self (vs_reuse (cur_scope g)) 0
                  (g, map (\<lambda>i. UnstackOut t 1 i [b, d]) [0..<T], local_weights self)
                = Inr (g', x1, local_weights s'))
       \<and> (timestep_body self r0 i (gi, xi, lwi) = Inr (gj, xj, lwj) \<longrightarrow>
            lwj = Some (get_collection gj (layer_scope_name self gi)))"
proof (intro conjI impI)
  assume "timestep_body self r0 i (gi, xi, lwi) = Inr (gj, xj, lwj)"
  then show "lwj = Some (get_collection gj (layer_scope_name self gi))"
    by (rule timestep_body_captures)
next
  have both: "local_weights s' = Some (get_collection g' (layer_scope_name self g))
       \<and> (\<exists>x1. timestep_body self (vs_reuse (cur_scope g)) 0
                  (g, map (\<lambda>i. UnstackOut t 1 i [b, d]) [0..<T], local_weights self)
                = Inr (g', x1, local_weights s'))"
  proof (rule call_tl_success [OF cls inp ok])
    fix kw nm params osh G' ws
    assume args: "layer_args self = Val kw" "map_of kw ''name'' = Some (PyStr nm)" and T: "0 < T"
      and sp: "spec kw [b, d] = Inr (params, osh)"
      and gv: "get_variables params
         (g\<lparr>cur_scope := inner_scope self nm (vs_reuse (cur_scope g)) (cur_scope g)\<rparr>) = Inr (G', ws)"
      and fin: "finish_call (base_call self prev)
         (G'\<lparr>cur_scope := cur_scope g\<rparr>,
          map (\<lambda>j. LayerOut cn ws (UnstackOut t 1 j [b, d]) osh) [0..<T],
          Some (get_collection G' (layer_scope_name self g))) = Inr (g', s')"
    let ?x = "map (\<lambda>i. UnstackOut t 1 i [b, d]) [0..<T]"
    from finish_call_Inr [OF fin] have g': "g' = G'\<lparr>cur_scope := cur_scope g\<rparr>"
      and lw: "local_weights s' = Some (get_collection G' (layer_scope_name self g))"
      by auto
    have len: "0 < length ?x" and sp0: "spec kw (get_shape (?x ! 0)) = Inr (params, osh)"
      using T sp by simp_all
    have body: "timestep_body self (vs_reuse (cur_scope g)) 0 (g, ?x, local_weights self) =
        Inr (g', ?x[0 := LayerOut cn ws (?x ! 0) osh], local_weights s')"
      using timestep_body_tl [OF cls args len sp0, of "vs_reuse (cur_scope g)" g "local_weights self"]
        gv g' lw
      by (simp add: timestep_reuse_def layer_scope_name_def)
    from g' lw body show ?thesis by auto
  qed
  from both show "local_weights s' = Some (get_collection g' (layer_scope_name self g))" ..
  from both show "\<exists>x1. timestep_body self (vs_reuse (cur_scope g)) 0
                  (g, map (\<lambda>i. UnstackOut t 1 i [b, d]) [0..<T], local_weights self)
                = Inr (g', x1, local_weights s')" ..
qed

theorem parameters_captured_witness:
  "\<exists>s' x1. call time_dense (input_net 3) fresh_graph = Inr (built_graph, s')
      \<and> local_weights s' = Some dense_params
      \<and> timestep_body time_dense NoReuse 0
           (fresh_graph, map (\<lambda>i. UnstackOut (encode_seqs 3) 1 i [Some 32, Some 100]) [0..<3], None)
         = Inr (built_graph, x1, Some dense_params)
      \<and> Some dense_params = Some (get_collection built_graph (layer_scope_name time_dense fresh_graph))"
proof -
  have "case call time_dense (input_net 3) fresh_graph of
          Inl e \<Rightarrow> False
        | Inr (g, s) \<Rightarrow> g = built_graph \<and> local_weights s = Some dense_params"
    by code_simp
  then obtain s' where ok: "call time_dense (input_net 3) fresh_graph = Inr (built_graph, s')"
    and lw: "local_weights s' = Some dense_params"
    by (auto split: sum.splits)
  have cls: "layer_class time_dense = Val (tl_layer ''DenseLayer'' dense_spec)"
    by (simp add: time_dense_def DenseLayer_def)
  have inp: "pl_outputs (input_net 3) = TensorV (encode_seqs 3)"
    "get_shape (encode_seqs 3) = [Some 32, Some 3, Some 100]"
    by (simp_all add: input_net_def encode_seqs_def)
  have more: "vs_reuse (cur_scope fresh_graph) = NoReuse" "local_weights time_dense = None"
    by (simp_all add: fresh_graph_def root_scope_def time_dense_def)
  note inst = parameters_captured_in_first_timestep
         [OF cls inp ok, where ?r0.0 = NoReuse and i = 0 and gi = fresh_graph and lwi = None
            and gj = built_graph and lwj = "Some dense_params"]
  from inst ok lw more show ?thesis by auto
qed

subsection \<open>The output\<close>

text \<open>
  Claim C2. Over an input of shape \<open>(b, T, d)\<close>, with an inner class whose outputs have
  shape \<open>(b, d')\<close> on every input of shape \<open>(b, d)\<close>, the outputs of a call that succeeds
  have shape \<open>(b, T, d')\<close>: as many timesteps as the input.
\<close>

theorem output_shape:
  assumes inp: "pl_outputs prev = TensorV t" "get_shape t = [b, Some T, d]"
    and cls: "layer_class self = Val c" and args: "layer_args self = Val kw"
    and feat: "\<forall>il g1 g2 y. get_shape (il_outputs il) = [b, d] \<longrightarrow>
                 cls_call c il kw g1 = Inr (g2, y) \<longrightarrow> get_shape y = [b, d']"
    and ok: "call self prev g = Inr (g', s')"
  shows "\<exists>out. outputs s' = Some out \<and> get_shape out = [b, Some T, d']"
proof -
  let ?self = "base_call self prev"
  let ?x = "map (\<lambda>i. UnstackOut t 1 i [b, d]) [0..<T]"
  from call_first_timestep [OF inp ok] have T: "0 < T" by simp
  from ok obtain g1 x' lw' where
    loop: "timestep_loop ?self (vs_reuse (cur_scope g)) [0..<T] (g, ?x, local_weights self)
             = Inr (g1, x', lw')"
    and fin: "finish_call ?self (g1, x', lw') = Inr (g', s')"
    by (auto simp: call_3d [OF inp] split: sum.splits)
  have cls': "layer_class ?self = Val c" and args': "layer_args ?self = Val kw"
    using cls args by simp_all
  have shapes: "\<forall>i\<in>set [0..<T]. get_shape (?x ! i) = [b, d]" by simp
  from timestep_loop_shapes [OF cls' args' feat _ shapes loop]
  have len: "length x' = T" and all: "\<forall>j<T. get_shape (x' ! j) = [b, d']"
    by simp_all
  have ne: "x' \<noteq> []" using len T by auto
  have same: "\<forall>u\<in>set x'. get_shape u = [b, d']"
    using len all by (auto simp: in_set_conv_nth)
  from finish_call_Inr [OF fin] obtain out where
    st: "tf_stack x' 1 = Inr out" and out: "outputs s' = Some out"
    by auto
  from tf_stack_same_shape [OF ne same, of 1] st len
  have "get_shape out = [b, Some T, d']" by auto
  with out show ?thesis by simp
qed

theorem output_shape_witness:
  "\<exists>g' s' out. call time_dense (input_net 20) fresh_graph = Inr (g', s')
      \<and> outputs s' = Some out \<and> get_shape out = [Some 32, Some 20, Some 50]"
proof -
  have "case call time_dense (input_net 20) fresh_graph of
          Inl e \<Rightarrow> False
        | Inr (g, s) \<Rightarrow> g = built_graph"
    by code_simp
  then obtain s' where ok: "call time_dense (input_net 20) fresh_graph = Inr (built_graph, s')"
    by (auto split: sum.splits)
  have facts: "pl_outputs (input_net 20) = TensorV (encode_seqs 20)"
    "get_shape (encode_seqs 20) = [Some 32, Some 20, Some 100]"
    "layer_class time_dense = Val DenseLayer" "layer_args time_dense = Val dense_args"
    by (simp_all add: input_net_def encode_seqs_def time_dense_def)
  from output_shape [OF facts dense_output_shape ok] ok show ?thesis by blast
qed




subsection \<open>Failures\<close>

text \<open>
  Claim C5. When the configuration has no entry \<open>name\<close> the call fails, whatever the
  inputs are, and so returns no instance with outputs; over a tensor of shape \<open>(b, T, d)\<close>
  with \<open>T \<ge> 1\<close> the failure is the \<^verbatim>\<open>KeyError\<close> of the first pass through the loop.
\<close>

theorem missing_name_key_fails:
  assumes args: "layer_args self = Val kw" and missing: "map_of kw ''name'' = None"
  shows "(\<exists>e. call self prev g = Inl e)
       \<and> (pl_outputs prev = TensorV t \<longrightarrow> get_shape t = [b, Some T, d] \<longrightarrow> 0 < T \<longrightarrow>
            call self prev g = Inl KeyError)"
proof
  show "\<exists>e. call self prev g = Inl e"
  proof (cases "call self prev g")
    case (Inl e)
    then show ?thesis by blast
  next
    case (Inr r)
    from call_Inr_loop [OF Inr] obtain self2 num x st where
      a2: "layer_args self2 = layer_args self"
      and loop: "timestep_loop self2 (vs_reuse (cur_scope g)) [0..<num] (g, x, local_weights self) = Inr st"
      and len: "length x = num" and fin: "finish_call self2 st = Inr r"
      by blast
    show ?thesis
    proof (cases "num = 0")
      case True
      with loop len have "st = (g, [], local_weights self)" by simp
      with fin show ?thesis
        by (simp add: finish_call_def tf_stack_def)
    next
      case False
      then have "[0..<num] = 0 # [1..<num]" by (simp add: upt_first)
      with loop timestep_body_missing_name [of self2 kw _ 0 g x] args missing a2
      show ?thesis by simp
    qed
  qed
next
  show "pl_outputs prev = TensorV t \<longrightarrow> get_shape t = [b, Some T, d] \<longrightarrow> 0 < T \<longrightarrow>
            call self prev g = Inl KeyError"
  proof (intro impI)
    assume inp: "pl_outputs prev = TensorV t" "get_shape t = [b, Some T, d]" and T: "0 < T"
    have "layer_args (base_call self prev) = Val kw" using args by simp
    from timestep_body_missing_name [OF this missing] T show "call self prev g = Inl KeyError"
      by (simp add: call_3d [OF inp] upt_first [OF T])
  qed
qed

theorem missing_name_key_witness:
  "call (time_dense\<lparr>layer_args := Val [(''n_units'', PyInt 50)]\<rparr>) (input_net 20) fresh_graph
     = Inl KeyError"
  using missing_name_key_fails
          [of "time_dense\<lparr>layer_args := Val [(''n_units'', PyInt 50)]\<rparr>"
              "[(''n_units'', PyInt 50)]" "input_net 20" fresh_graph "encode_seqs 20"
              "Some 32" 20 "Some 100"]
  by (simp add: input_net_def encode_seqs_def)

text \<open>
  Claim C10, as the source has it. The claim says that a call without timesteps fails with
  an \<^verbatim>\<open>AttributeError\<close> when the parameters are registered. On the example of the
  docstring with \<open>T = 0\<close> the call fails before that, when the empty list of outputs is
  stacked on axis 1.
\<close>

theorem no_timestep_counterexample:
  "call time_dense (input_net 0) fresh_graph = Inl TFError
   \<and> call time_dense (input_net 0) fresh_graph \<noteq> Inl AttributeError"
  using call_no_timestep [of "input_net 0" "encode_seqs 0" "Some 32" "Some 100" time_dense fresh_graph]
  by (simp add: input_net_def encode_seqs_def)

text \<open>
  Claim C10, amended. Over an input of shape \<open>(b, 0, d)\<close> the loop does not run, so the
  entry \<open>name\<close> is not read and \<open>_local_weights\<close> is not assigned; the call fails when the
  empty list is stacked on axis 1 (line 117), whatever the configuration holds, before the
  outputs and the parameters are registered.
\<close>

theorem no_timestep_fails_on_restacking:
  assumes "pl_outputs prev = TensorV t" and "get_shape t = [b, Some 0, d]"
  shows "call self prev g = Inl TFError
       \<and> timestep_loop (base_call self prev) (vs_reuse (cur_scope g)) [0..<0]
            (g, [], local_weights self) = Inr (g, [], local_weights self)"
  using call_no_timestep [OF assms] by simp

theorem no_timestep_witness:
  "call (time_dense\<lparr>layer_args := Val []\<rparr>) (input_net 0) fresh_graph = Inl TFError"
  using no_timestep_fails_on_restacking
          [of "input_net 0" "encode_seqs 0" "Some 32" "Some 100"
              "time_dense\<lparr>layer_args := Val []\<rparr>" fresh_graph]
  by (simp add: input_net_def encode_seqs_def)

end
